theory Spec2Isabelle
  imports Complex_Main "HOL-Library.Word"
begin

section \<open>JavaScript values\<close>

text \<open>
  A JavaScript string is a sequence of 16-bit code units; \<open>charCodeAt\<close> reads one of them.
  \<open>str\<close> writes a literal of the source as such a sequence.
\<close>

type_synonym jsstring = "16 word list"

definition str :: "string \<Rightarrow> jsstring" where
  "str s = map (\<lambda>c. of_nat (of_char c)) s"

text \<open>
  A JavaScript number is a double: a finite value (a rational), NaN or an infinity.
  The sign of zero is not modelled; no function below distinguishes \<open>-0\<close> from \<open>0\<close>.
\<close>

datatype jsnumber = Fin rat | NaN | PosInf | NegInf

text \<open>
  The values that reach \<open>JSON.stringify\<close> and the configuration check: \<open>undefined\<close>,
  \<open>null\<close>, booleans, numbers, strings, arrays and plain objects. An object lists its own
  properties in property order, which is the order \<open>JSON.stringify\<close> writes them in.
\<close>

datatype jsvalue =
    JUndefined
  | JNull
  | JBool bool
  | JNum jsnumber
  | JStr jsstring
  | JArr "jsvalue list"
  | JObj "(jsstring \<times> jsvalue) list"

section \<open>Text truncation (serializable.ts, dom.ts)\<close>

text \<open>
  The characters matched by \<open>\s\<close> and removed by \<open>trim\<close>: ECMAScript's WhiteSpace and
  LineTerminator code points.
\<close>

definition isWhiteSpace :: "16 word \<Rightarrow> bool" where
  "isWhiteSpace c =
     (c = 0x09 \<or> c = 0x0A \<or> c = 0x0B \<or> c = 0x0C \<or> c = 0x0D \<or> c = 0x20 \<or> c = 0xA0
      \<or> c = 0x1680 \<or> (0x2000 \<le> c \<and> c \<le> 0x200A) \<or> c = 0x2028 \<or> c = 0x2029
      \<or> c = 0x202F \<or> c = 0x205F \<or> c = 0x3000 \<or> c = 0xFEFF)"

definition trim :: "jsstring \<Rightarrow> jsstring" where
  "trim s = rev (dropWhile isWhiteSpace (rev (dropWhile isWhiteSpace s)))"

text \<open>\<open>.replace(/\s+/g, " ")\<close>: every maximal run of whitespace becomes one space.\<close>

function replaceWhitespaceRuns :: "jsstring \<Rightarrow> jsstring" where
  "replaceWhitespaceRuns [] = []"
| "replaceWhitespaceRuns (c # cs) =
     (if isWhiteSpace c then 0x20 # replaceWhitespaceRuns (dropWhile isWhiteSpace cs)
      else c # replaceWhitespaceRuns cs)"
  by pat_completeness auto
termination
  by (relation "measure length") (auto simp: less_Suc_eq_le length_dropWhile_le)

text \<open>
  \<open>s.slice(0, end)\<close> for an integer \<open>end\<close>: a negative end counts from the end of the
  string, and the bounds are clamped to the string.
\<close>

definition slice0 :: "jsstring \<Rightarrow> int \<Rightarrow> jsstring" where
  "slice0 s e = take (nat (if e < 0 then int (length s) + e else e)) s"

definition ellipsis :: "16 word" where
  "ellipsis = 0x2026"

definition truncateText :: "jsstring \<Rightarrow> int \<Rightarrow> jsstring" where
  "truncateText text limit =
     (let trimmed = replaceWhitespaceRuns (trim text) in
      if int (length trimmed) \<le> limit then trimmed
      else slice0 trimmed limit @ [ellipsis])"

definition MAX_TEXT_SNIPPET :: int where
  "MAX_TEXT_SNIPPET = 80"

text \<open>The argument is \<open>node.textContent\<close>, which is a string or null.\<close>

definition summarizeTextContent :: "jsstring option \<Rightarrow> jsstring option" where
  "summarizeTextContent textContent =
     (case textContent of
        None \<Rightarrow> None
      | Some text \<Rightarrow>
          (let summarized = truncateText text MAX_TEXT_SNIPPET in
           if length summarized = 0 then None else Some summarized))"

text \<open>
  A string is whitespace-collapsed when its only whitespace characters are single spaces,
  no two of them adjacent, and it neither starts nor ends with one.
\<close>

fun noAdjacentWhitespace :: "jsstring \<Rightarrow> bool" where
  "noAdjacentWhitespace (a # b # cs) =
     (\<not> (isWhiteSpace a \<and> isWhiteSpace b) \<and> noAdjacentWhitespace (b # cs))"
| "noAdjacentWhitespace _ = True"

definition whitespaceCollapsed :: "jsstring \<Rightarrow> bool" where
  "whitespaceCollapsed r =
     (list_all (\<lambda>c. isWhiteSpace c \<longrightarrow> c = 0x20) r \<and> noAdjacentWhitespace r
      \<and> (r \<noteq> [] \<longrightarrow> \<not> isWhiteSpace (hd r) \<and> \<not> isWhiteSpace (last r)))"

section \<open>Deduplication of selected elements (dom.ts)\<close>

text \<open>
  Elements are compared by reference; the type \<open>'el\<close> stands for element references.
  The loop carries the set \<open>seen\<close> and the output array \<open>out\<close>.
\<close>

fun dedupeLoop :: "'el list \<Rightarrow> 'el set \<Rightarrow> 'el list \<Rightarrow> 'el list" where
  "dedupeLoop [] seen out = out"
| "dedupeLoop (el # els) seen out =
     (if el \<in> seen then dedupeLoop els seen out
      else dedupeLoop els (insert el seen) (out @ [el]))"

definition dedupeElementsPreserveOrder :: "'el list \<Rightarrow> 'el list" where
  "dedupeElementsPreserveOrder elements = dedupeLoop elements {} []"

section \<open>Prompt checksum (prompt.ts)\<close>

text \<open>
  \<open>ToInt32\<close> and \<open>ToUint32\<close> on an integral number. The intermediate values of the loop
  are integers below \<open>2^53\<close> in magnitude, so the double arithmetic of the source is exact
  and is modelled on \<open>int\<close>.
\<close>

definition toInt32 :: "int \<Rightarrow> int" where
  "toInt32 x = (x + 2 ^ 31) mod 2 ^ 32 - 2 ^ 31"

definition toUint32 :: "int \<Rightarrow> int" where
  "toUint32 x = x mod 2 ^ 32"

definition hexDigit :: "nat \<Rightarrow> 16 word" where
  "hexDigit d = (if d < 10 then of_nat (48 + d) else of_nat (87 + d))"

text \<open>\<open>n.toString(16)\<close> for a non-negative integer \<open>n\<close>.\<close>

fun toString16 :: "nat \<Rightarrow> jsstring" where
  "toString16 n = (if n < 16 then [hexDigit n] else toString16 (n div 16) @ [hexDigit (n mod 16)])"

declare toString16.simps [simp del]

definition checksumStep :: "int \<Rightarrow> 16 word \<Rightarrow> int" where
  "checksumStep hash c = toInt32 (toInt32 (hash * 2 ^ 5) - hash + uint c)"

definition promptChecksum :: "jsstring \<Rightarrow> jsstring" where
  "promptChecksum input = toString16 (nat \<bar>toUint32 (foldl checksumStep 0 input)\<bar>)"

text \<open>The checksum as the specification words it: \<open>hash * 31 + charCode\<close>, kept to 32 bits.\<close>

definition rollingHash :: "jsstring \<Rightarrow> nat" where
  "rollingHash s = foldl (\<lambda>h c. (h * 31 + unat c) mod 2 ^ 32) 0 s"

section \<open>String operations of the source\<close>

text \<open>
  \<open>toLowerCase\<close> on the letters A to Z. Code units outside ASCII are left as they are:
  the Unicode case mapping is not modelled, and every result below that depends on it is
  about ASCII text.
\<close>

definition lowerUnit :: "16 word \<Rightarrow> 16 word" where
  "lowerUnit c = (if 0x41 \<le> c \<and> c \<le> 0x5A then c + 0x20 else c)"

definition toLowerCase :: "jsstring \<Rightarrow> jsstring" where
  "toLowerCase s = map lowerUnit s"

definition startsWith :: "jsstring \<Rightarrow> jsstring \<Rightarrow> bool" where
  "startsWith s p = (take (length p) s = p)"

definition endsWith :: "jsstring \<Rightarrow> jsstring \<Rightarrow> bool" where
  "endsWith s p = (length p \<le> length s \<and> drop (length s - length p) s = p)"

fun includesStr :: "jsstring \<Rightarrow> jsstring \<Rightarrow> bool" where
  "includesStr [] p = (p = [])"
| "includesStr (c # cs) p = (startsWith (c # cs) p \<or> includesStr cs p)"

text \<open>\<open>s.split(sep)\<close> for a separator of one character: never an empty array.\<close>

fun splitOn :: "16 word \<Rightarrow> jsstring \<Rightarrow> jsstring list" where
  "splitOn sep [] = [[]]"
| "splitOn sep (c # cs) =
     (if c = sep then [] # splitOn sep cs
      else (case splitOn sep cs of
              [] \<Rightarrow> [[c]]
            | seg # segs \<Rightarrow> (c # seg) # segs))"

fun joinWith :: "jsstring \<Rightarrow> jsstring list \<Rightarrow> jsstring" where
  "joinWith sep [] = []"
| "joinWith sep [a] = a"
| "joinWith sep (a # b # rest) = a @ sep @ joinWith sep (b # rest)"

definition decDigit :: "nat \<Rightarrow> 16 word" where
  "decDigit d = of_nat (48 + d)"

text \<open>A non-negative integer in a template literal or under \<open>toString()\<close>: decimal digits.\<close>

fun toString10 :: "nat \<Rightarrow> jsstring" where
  "toString10 n = (if n < 10 then [decDigit n] else toString10 (n div 10) @ [decDigit (n mod 10)])"

declare toString10.simps [simp del]

section \<open>Schema (schema.ts)\<close>

datatype SourceConfidence = ConfidenceNone | ConfidenceLow | ConfidenceMedium | ConfidenceHigh

datatype SourceOrigin = OriginBippy | OriginSourcemap | OriginInline | OriginUnknown

record SourceLocation =
  fileName :: jsstring
  lineNumber :: "jsnumber option"
  columnNumber :: "jsnumber option"
  confidence :: SourceConfidence
  origin :: SourceOrigin

record ComponentFlags =
  flagIsHost :: bool
  flagIsComposite :: bool
  isSuspenseBoundary :: "bool option"
  isErrorBoundary :: "bool option"
  isServerComponent :: "bool option"
  isLayoutLike :: "bool option"

datatype PropReason =
  ReasonText | ReasonDesign | ReasonChildren | ReasonTestId | ReasonAriaLabel | ReasonOther

text \<open>
  A \<open>SerializableValue | null\<close> is a \<open>jsvalue\<close> without \<open>undefined\<close>; \<open>JNull\<close> is the
  null of the source.
\<close>

record PropHighlight =
  propName :: jsstring
  propValue :: jsvalue
  propReason :: PropReason

record PropsSnapshot =
  totalProps :: jsnumber
  highlighted :: "PropHighlight list"

record StateSnapshotEntry =
  hookIndex :: jsnumber
  hookValue :: jsvalue

record StateSnapshot =
  totalHooks :: jsnumber
  stateEntries :: "StateSnapshotEntry list"

record ContextEntry =
  contextIndex :: jsnumber
  contextValue :: jsvalue

record ContextSnapshot =
  totalContexts :: jsnumber
  contextEntries :: "ContextEntry list"

record ReactComponentFrame =
  displayName :: "jsstring option"
  isHost :: bool
  frameSource :: "SourceLocation option"
  flags :: ComponentFlags

record ReactTreeSlice =
  stack :: "ReactComponentFrame list"
  ownerIndex :: "jsnumber option"
  ownerProps :: "PropsSnapshot option"
  ownerState :: "StateSnapshot option"
  ownerContexts :: "ContextSnapshot option"

datatype DataSourceKind =
  KindReactQuery | KindSwr | KindRedux | KindTrpc | KindCustom | KindUnknown

record DataSourceHint =
  hintKind :: DataSourceKind
  hintIdentifier :: "jsstring option"
  hintDescription :: "jsstring option"

datatype InferredFramework =
  NextApp | NextPages | Remix | ReactRouter | FrameworkUnknown

record FrameworkDetectionResult =
  resFramework :: InferredFramework
  resRoutePatternGuess :: "jsstring option"
  resRouteParamsGuess :: "(jsstring \<times> jsstring) list option"
  resPageComponent :: "SourceLocation option"
  resLayoutComponents :: "SourceLocation list"

record AppContext =
  appUrl :: jsstring
  appPathname :: jsstring
  appSearch :: jsstring
  appHash :: jsstring
  framework :: InferredFramework
  routePatternGuess :: "jsstring option"
  routeParamsGuess :: "(jsstring \<times> jsstring) list option"
  pageComponent :: "SourceLocation option"
  layoutComponents :: "SourceLocation list"
  dataSources :: "DataSourceHint list"

record FrameworkDetectionInput =
  inReactSlice :: "ReactTreeSlice option"
  inUrl :: jsstring
  inPathname :: jsstring

record FrameworkDetectionStrategy =
  frameworkStrategyId :: jsstring
  detectFramework :: "FrameworkDetectionInput \<Rightarrow> FrameworkDetectionResult option"

record DataSourceDetectionInput =
  inOwnerProps :: "PropsSnapshot option"

record DataSourceDetectionStrategy =
  dataSourceStrategyId :: jsstring
  detectDataSources :: "DataSourceDetectionInput \<Rightarrow> DataSourceHint list"

record GrabrHeuristics =
  frameworkStrategies :: "FrameworkDetectionStrategy list"
  dataSourceStrategies :: "DataSourceDetectionStrategy list"

text \<open>
  The two checked fields of the configuration hold whatever value the caller passed: the
  check runs on values of any type.
\<close>

record GrabrRuntimeConfig =
  reactInspectorMode :: jsvalue
  maxReactStackFrames :: jsvalue
  heuristics :: GrabrHeuristics

text \<open>\<open>Partial<GrabrRuntimeConfig>\<close>: an absent field reads as \<open>undefined\<close>.\<close>

record PartialHeuristics =
  partialFrameworkStrategies :: "FrameworkDetectionStrategy list option"
  partialDataSourceStrategies :: "DataSourceDetectionStrategy list option"

record PartialRuntimeConfig =
  partialReactInspectorMode :: jsvalue
  partialMaxReactStackFrames :: jsvalue
  partialHeuristics :: "PartialHeuristics option"

section \<open>Heuristic strategies and configuration (heuristics.ts)\<close>

definition inferFrameworkFromPath :: "jsstring \<Rightarrow> InferredFramework" where
  "inferFrameworkFromPath path =
     (if includesStr path (str ''/app/'') then NextApp
      else if includesStr path (str ''/pages/'') then NextPages
      else if includesStr path (str ''react-router'') then ReactRouter
      else if includesStr path (str ''remix'') then Remix
      else FrameworkUnknown)"

definition isLayoutLikeFromPath :: "jsstring \<Rightarrow> bool" where
  "isLayoutLikeFromPath path =
     (endsWith path (str ''/layout.tsx'') \<or> endsWith path (str ''/layout.jsx'')
      \<or> endsWith path (str ''/_layout.tsx'') \<or> endsWith path (str ''/_layout.jsx''))"

definition isPageLikeFromPath :: "jsstring \<Rightarrow> bool" where
  "isPageLikeFromPath path =
     (endsWith path (str ''/page.tsx'') \<or> endsWith path (str ''/page.jsx'')
      \<or> endsWith path (str ''/index.tsx'') \<or> endsWith path (str ''/index.jsx''))"

text \<open>
  The test \<open>/^\\d+$/.test(seg)\<close>. In the regular expression literal the two backslashes
  are an escaped backslash, so the pattern is: start of the string, one backslash, one or
  more letters \<open>d\<close>, end of the string.
\<close>

fun backslashDsTest :: "jsstring \<Rightarrow> bool" where
  "backslashDsTest [] = False"
| "backslashDsTest (c # ds) = (c = 0x5C \<and> ds \<noteq> [] \<and> list_all (\<lambda>d. d = 0x64) ds)"

text \<open>
  The loop over the stack of the slice: the framework found so far, the layout components
  and the first page component.
\<close>

fun scanStack ::
  "ReactComponentFrame list \<Rightarrow> InferredFramework \<Rightarrow> SourceLocation list \<Rightarrow> SourceLocation option
     \<Rightarrow> InferredFramework \<times> SourceLocation list \<times> SourceLocation option" where
  "scanStack [] fw layouts page = (fw, layouts, page)"
| "scanStack (frame # frames) fw layouts page =
     (case frameSource frame of
        None \<Rightarrow> scanStack frames fw layouts page
      | Some source \<Rightarrow>
          (let path = fileName source;
               fw' = (if fw = FrameworkUnknown then inferFrameworkFromPath path else fw);
               layouts' = (if isLayoutLikeFromPath path then layouts @ [source] else layouts);
               page' = (if page = None \<and> isPageLikeFromPath path then Some source else page)
           in scanStack frames fw' layouts' page'))"

text \<open>
  The loop \<open>segments.forEach((seg, idx) => ...)\<close>: the pattern segments and the entries
  of \<open>routeParamsGuess\<close> in the order they are assigned. The keys differ from entry to
  entry, since each carries its index.
\<close>

fun routeSegments ::
  "jsstring list \<Rightarrow> nat \<Rightarrow> jsstring list \<Rightarrow> (jsstring \<times> jsstring) list
     \<Rightarrow> jsstring list \<times> (jsstring \<times> jsstring) list" where
  "routeSegments [] idx patternSegments params = (patternSegments, params)"
| "routeSegments (seg # segs) idx patternSegments params =
     (if backslashDsTest seg then
        routeSegments segs (idx + 1)
          (patternSegments @ [str ''[id'' @ toString10 idx @ str '']''])
          (params @ [(str ''id'' @ toString10 idx, seg)])
      else if length seg > 2 \<and> seg = toLowerCase seg then
        routeSegments segs (idx + 1) (patternSegments @ [seg]) params
      else
        routeSegments segs (idx + 1)
          (patternSegments @ [str ''[param'' @ toString10 idx @ str '']''])
          (params @ [(str ''param'' @ toString10 idx, seg)]))"

definition guessRoutePattern :: "jsstring \<Rightarrow> jsstring \<times> (jsstring \<times> jsstring) list" where
  "guessRoutePattern pathname =
     (let segments = filter (\<lambda>s. length s > 0) (splitOn 0x2F pathname);
          (patternSegments, params) = routeSegments segments 0 [] []
      in (str ''/'' @ joinWith (str ''/'') patternSegments, params))"

definition nextLikeDetect :: "FrameworkDetectionInput \<Rightarrow> FrameworkDetectionResult option" where
  "nextLikeDetect input =
     (case inReactSlice input of
        None \<Rightarrow> None
      | Some reactSlice \<Rightarrow>
          (let (fw, layouts, page) = scanStack (stack reactSlice) FrameworkUnknown [] None in
           if fw = FrameworkUnknown \<and> page = None \<and> length layouts = 0 then None
           else
             (let guess = (if fw = NextApp \<or> fw = NextPages
                           then Some (guessRoutePattern (inPathname input)) else None)
              in Some \<lparr> resFramework = fw,
                        resRoutePatternGuess = map_option fst guess,
                        resRouteParamsGuess =
                          (case guess of
                             None \<Rightarrow> None
                           | Some (pattern, params) \<Rightarrow> if length params > 0 then Some params else None),
                        resPageComponent = page,
                        resLayoutComponents = layouts \<rparr>)))"

definition nextLikeFrameworkStrategy :: FrameworkDetectionStrategy where
  "nextLikeFrameworkStrategy =
     \<lparr> frameworkStrategyId = str ''next-like'', detectFramework = nextLikeDetect \<rparr>"

definition unknownFrameworkResult :: FrameworkDetectionResult where
  "unknownFrameworkResult =
     \<lparr> resFramework = FrameworkUnknown, resRoutePatternGuess = None, resRouteParamsGuess = None,
       resPageComponent = None, resLayoutComponents = [] \<rparr>"

definition genericFrameworkStrategy :: FrameworkDetectionStrategy where
  "genericFrameworkStrategy =
     \<lparr> frameworkStrategyId = str ''generic'',
       detectFramework = (\<lambda>input. Some unknownFrameworkResult) \<rparr>"

definition unknownHint :: DataSourceHint where
  "unknownHint = \<lparr> hintKind = KindUnknown, hintIdentifier = None, hintDescription = None \<rparr>"

text \<open>The body of the bundled data-source strategy from the lower-cased names on.\<close>

definition hintsFromLowerNames :: "jsstring list \<Rightarrow> DataSourceHint list" where
  "hintsFromLowerNames lowerNames =
     (let lowerSet = set lowerNames;
          hasData = (str ''data'' \<in> lowerSet);
          hasIsLoading = (str ''isloading'' \<in> lowerSet \<or> str ''loading'' \<in> lowerSet);
          hasError = (str ''error'' \<in> lowerSet);
          hints =
            (if hasData \<and> hasIsLoading \<and> hasError
             then [\<lparr> hintKind = KindReactQuery, hintIdentifier = None,
                     hintDescription =
                       Some (str ''Props suggest React Query-like async data (data/loading/error).'') \<rparr>]
             else [])
            @ (if list_ex (\<lambda>p. includesStr p (str ''swr'')) lowerNames
               then [\<lparr> hintKind = KindSwr, hintIdentifier = None,
                       hintDescription = Some (str ''Props mention SWR, likely SWR-based data.'') \<rparr>]
               else [])
            @ (if list_ex (\<lambda>p. includesStr p (str ''selector'')) lowerNames
               then [\<lparr> hintKind = KindRedux, hintIdentifier = None,
                       hintDescription = Some (str ''Selector-like props hint at Redux selectors.'') \<rparr>]
               else [])
      in if length hints = 0 then [unknownHint] else hints)"

definition lowerNamesOf :: "DataSourceDetectionInput \<Rightarrow> jsstring list" where
  "lowerNamesOf input =
     (case inOwnerProps input of
        None \<Rightarrow> []
      | Some props \<Rightarrow> map (\<lambda>h. toLowerCase (propName h)) (highlighted props))"

definition basicDataSourceDetect :: "DataSourceDetectionInput \<Rightarrow> DataSourceHint list" where
  "basicDataSourceDetect input = hintsFromLowerNames (lowerNamesOf input)"

definition basicDataSourceStrategy :: DataSourceDetectionStrategy where
  "basicDataSourceStrategy =
     \<lparr> dataSourceStrategyId = str ''basic-data-props'', detectDataSources = basicDataSourceDetect \<rparr>"

definition defaultHeuristics :: GrabrHeuristics where
  "defaultHeuristics =
     \<lparr> frameworkStrategies = [nextLikeFrameworkStrategy, genericFrameworkStrategy],
       dataSourceStrategies = [basicDataSourceStrategy] \<rparr>"

definition defaultRuntimeConfig :: GrabrRuntimeConfig where
  "defaultRuntimeConfig =
     \<lparr> reactInspectorMode = JStr (str ''best-effort''),
       maxReactStackFrames = JNum (Fin 8),
       heuristics = defaultHeuristics \<rparr>"

text \<open>\<open>a ?? b\<close>: the right operand when the left is null or undefined.\<close>

definition nullish :: "jsvalue \<Rightarrow> jsvalue \<Rightarrow> jsvalue" where
  "nullish a b = (if a = JUndefined \<or> a = JNull then b else a)"

definition mergeRuntimeConfig :: "PartialRuntimeConfig option \<Rightarrow> GrabrRuntimeConfig" where
  "mergeRuntimeConfig partial =
     (case partial of
        None \<Rightarrow> defaultRuntimeConfig
      | Some p \<Rightarrow>
          \<lparr> reactInspectorMode =
              nullish (partialReactInspectorMode p) (reactInspectorMode defaultRuntimeConfig),
            maxReactStackFrames =
              nullish (partialMaxReactStackFrames p) (maxReactStackFrames defaultRuntimeConfig),
            heuristics =
              \<lparr> frameworkStrategies =
                  (case Option.bind (partialHeuristics p) partialFrameworkStrategies of
                     None \<Rightarrow> frameworkStrategies defaultHeuristics
                   | Some fs \<Rightarrow> fs),
                dataSourceStrategies =
                  (case Option.bind (partialHeuristics p) partialDataSourceStrategies of
                     None \<Rightarrow> dataSourceStrategies defaultHeuristics
                   | Some ds \<Rightarrow> ds) \<rparr> \<rparr>)"

text \<open>\<open>window.location\<close>, when there is a window.\<close>

record Location =
  href :: jsstring
  locPathname :: jsstring
  locSearch :: jsstring
  locHash :: jsstring

definition firstNonNull :: "'a option list \<Rightarrow> 'a option" where
  "firstNonNull rs = (case filter (\<lambda>r. r \<noteq> None) rs of [] \<Rightarrow> None | r # _ \<Rightarrow> r)"

definition collectDataSources ::
  "DataSourceDetectionStrategy list \<Rightarrow> DataSourceDetectionInput \<Rightarrow> DataSourceHint list" where
  "collectDataSources strategies input =
     (let collected = concat (map (\<lambda>strategy. detectDataSources strategy input) strategies)
      in if length collected > 0 then collected else [unknownHint])"

definition buildAppContext ::
  "Location option \<Rightarrow> ReactTreeSlice option \<Rightarrow> GrabrRuntimeConfig \<Rightarrow> AppContext" where
  "buildAppContext loc reactSlice config =
     (let url = (case loc of None \<Rightarrow> [] | Some l \<Rightarrow> href l);
          pathname = (case loc of None \<Rightarrow> [] | Some l \<Rightarrow> locPathname l);
          search = (case loc of None \<Rightarrow> [] | Some l \<Rightarrow> locSearch l);
          hash = (case loc of None \<Rightarrow> [] | Some l \<Rightarrow> locHash l);
          frameworkResult =
            (case firstNonNull
                    (map (\<lambda>strategy. detectFramework strategy
                            \<lparr> inReactSlice = reactSlice, inUrl = url, inPathname = pathname \<rparr>)
                       (frameworkStrategies (heuristics config))) of
               None \<Rightarrow> unknownFrameworkResult
             | Some result \<Rightarrow> result);
          sources =
            collectDataSources (dataSourceStrategies (heuristics config))
              \<lparr> inOwnerProps = Option.bind reactSlice ownerProps \<rparr>
      in \<lparr> appUrl = url, appPathname = pathname, appSearch = search, appHash = hash,
           framework = resFramework frameworkResult,
           routePatternGuess = resRoutePatternGuess frameworkResult,
           routeParamsGuess = resRouteParamsGuess frameworkResult,
           pageComponent = resPageComponent frameworkResult,
           layoutComponents = resLayoutComponents frameworkResult,
           dataSources = sources \<rparr>)"

fun isFiniteIntegerInRange :: "jsvalue \<Rightarrow> rat \<Rightarrow> rat \<Rightarrow> bool" where
  "isFiniteIntegerInRange (JNum (Fin q)) lo hi = (q \<in> \<int> \<and> lo \<le> q \<and> q \<le> hi)"
| "isFiniteIntegerInRange v lo hi = False"

text \<open>The errors of setup; a configuration error carries the value that was refused.\<close>

datatype error =
    NotInBrowser
  | InvalidReactInspectorMode jsvalue
  | InvalidMaxReactStackFrames jsvalue

definition validateRuntimeConfigOrThrow :: "GrabrRuntimeConfig \<Rightarrow> error + unit" where
  "validateRuntimeConfigOrThrow config =
     (if reactInspectorMode config \<noteq> JStr (str ''best-effort'')
         \<and> reactInspectorMode config \<noteq> JStr (str ''required'')
         \<and> reactInspectorMode config \<noteq> JStr (str ''off'')
      then Inl (InvalidReactInspectorMode (reactInspectorMode config))
      else if \<not> isFiniteIntegerInRange (maxReactStackFrames config) 1 64
      then Inl (InvalidMaxReactStackFrames (maxReactStackFrames config))
      else Inr ())"

text \<open>
  The argument of \<open>createGrabrClient\<close>: nothing, a partial configuration, or init options
  (recognised by their keys), of which only \<open>config\<close> matters to the configuration.
\<close>

datatype initArg =
    ArgAbsent
  | ArgConfig PartialRuntimeConfig
  | ArgOptions "PartialRuntimeConfig option"

fun normalizeInitOptionsArg :: "initArg \<Rightarrow> PartialRuntimeConfig option" where
  "normalizeInitOptionsArg ArgAbsent = None"
| "normalizeInitOptionsArg (ArgOptions config) = config"
| "normalizeInitOptionsArg (ArgConfig partial) = Some partial"

text \<open>
  \<open>createGrabrClient\<close> up to the point where the configuration is accepted: the check
  for a browser, the merge with the defaults and the validation. The value returned is
  the configuration the client is then built with.
\<close>

definition createGrabrClient :: "bool \<Rightarrow> initArg \<Rightarrow> error + GrabrRuntimeConfig" where
  "createGrabrClient inBrowser arg =
     (if \<not> inBrowser then Inl NotInBrowser
      else
        (let config = mergeRuntimeConfig (normalizeInitOptionsArg arg) in
         case validateRuntimeConfigOrThrow config of
           Inl e \<Rightarrow> Inl e
         | Inr u \<Rightarrow> Inr config))"

section \<open>Concurrency-limited mapping (client.ts)\<close>

text \<open>
  JavaScript runs one continuation at a time. A worker of \<open>mapWithConcurrencyLimit\<close> is
  either waiting for the promise of the index it claimed, or has returned, or has thrown.
  The pool holds the shared cursor \<open>nextIndex\<close>, the \<open>results\<close> array (a slot never written
  is \<open>None\<close>), the workers, the first rejection seen by \<open>Promise.all\<close>, and the state that
  the mapper's continuations act on.

  A mapper gives, for an item, its index and the state in which its promise settles, the
  outcome of the promise (\<open>Inl\<close> a rejection, \<open>Inr\<close> the value) and the state after the
  continuation ran.
\<close>

datatype worker = Awaiting nat | Finished | Failed

record ('b, 'e, 's) pool =
  nextIndex :: nat
  results :: "'b option list"
  workers :: "worker list"
  rejection :: "'e option"
  shared :: 's

type_synonym ('a, 'b, 'e, 's) mapper = "'a \<Rightarrow> nat \<Rightarrow> 's \<Rightarrow> ('e + 'b) \<times> 's"

fun isAwaiting :: "worker \<Rightarrow> bool" where
  "isAwaiting (Awaiting i) = True"
| "isAwaiting w = False"

definition runWorkerLoop :: "nat \<Rightarrow> nat \<Rightarrow> ('b, 'e, 's) pool \<Rightarrow> ('b, 'e, 's) pool" where
  "runWorkerLoop n w p =
     (if nextIndex p < n
      then p\<lparr> workers := (workers p)[w := Awaiting (nextIndex p)], nextIndex := nextIndex p + 1 \<rparr>
      else p\<lparr> workers := (workers p)[w := Finished] \<rparr>)"

definition startWorker :: "nat \<Rightarrow> ('b, 'e, 's) pool \<Rightarrow> ('b, 'e, 's) pool" where
  "startWorker n p = runWorkerLoop n (length (workers p)) (p\<lparr> workers := workers p @ [Finished] \<rparr>)"

definition settle ::
  "('a, 'b, 'e, 's) mapper \<Rightarrow> 'a list \<Rightarrow> nat \<Rightarrow> ('b, 'e, 's) pool \<Rightarrow> ('b, 'e, 's) pool" where
  "settle mapper items w p =
     (case workers p ! w of
        Awaiting i \<Rightarrow>
          (case mapper (items ! i) i (shared p) of
             (Inr v, s) \<Rightarrow>
               runWorkerLoop (length items) w (p\<lparr> results := (results p)[i := Some v], shared := s \<rparr>)
           | (Inl e, s) \<Rightarrow>
               p\<lparr> workers := (workers p)[w := Failed], rejection := Some e, shared := s \<rparr>)
      | Finished \<Rightarrow> p
      | Failed \<Rightarrow> p)"

definition awaitingWorkers :: "('b, 'e, 's) pool \<Rightarrow> nat list" where
  "awaitingWorkers p = filter (\<lambda>w. isAwaiting (workers p ! w)) [0..<length (workers p)]"

text \<open>Termination of the worker loop: every settlement uses up an index or a worker.\<close>

definition poolMeasure :: "nat \<Rightarrow> ('b, 'e, 's) pool \<Rightarrow> nat" where
  "poolMeasure n p =
     (if rejection p \<noteq> None then 0
      else 1 + (n - nextIndex p) + length (filter isAwaiting (workers p)))"

lemma length_awaiting: "length (awaitingWorkers p) = length (filter isAwaiting (workers p))"
proof -
  have "map ((!) (workers p)) (filter (\<lambda>w. isAwaiting (workers p ! w)) [0..<length (workers p)])
        = filter isAwaiting (map ((!) (workers p)) [0..<length (workers p)])"
    by (simp add: filter_map comp_def)
  then have "length (filter (\<lambda>w. isAwaiting (workers p ! w)) [0..<length (workers p)])
        = length (filter isAwaiting (workers p))"
    by (metis length_map map_nth)
  then show ?thesis by (simp add: awaitingWorkers_def)
qed

lemma awaiting_mem:
  "w \<in> set (awaitingWorkers p) \<longleftrightarrow> w < length (workers p) \<and> isAwaiting (workers p ! w)"
  by (auto simp: awaitingWorkers_def)

lemma filter_update_less:
  "w < length ws \<Longrightarrow> isAwaiting (ws ! w) \<Longrightarrow> \<not> isAwaiting x
     \<Longrightarrow> length (filter isAwaiting (ws[w := x])) < length (filter isAwaiting ws)"
proof (induction ws arbitrary: w)
  case Nil
  then show ?case by simp
next
  case (Cons a ws)
  then show ?case by (cases w) auto
qed

lemma filter_update_same:
  "w < length ws \<Longrightarrow> isAwaiting (ws ! w) \<Longrightarrow> isAwaiting x
     \<Longrightarrow> length (filter isAwaiting (ws[w := x])) = length (filter isAwaiting ws)"
proof (induction ws arbitrary: w)
  case Nil
  then show ?case by simp
next
  case (Cons a ws)
  then show ?case by (cases w) auto
qed

lemma settle_decreases:
  assumes "rejection p = None" and "w \<in> set (awaitingWorkers p)"
  shows "poolMeasure (length items) (settle mapper items w p) < poolMeasure (length items) p"
proof -
  from assms(2) have w: "w < length (workers p)" "isAwaiting (workers p ! w)"
    by (simp_all add: awaiting_mem)
  then obtain i where i: "workers p ! w = Awaiting i" by (cases "workers p ! w") auto
  obtain r s where m: "mapper (items ! i) i (shared p) = (r, s)" by (cases "mapper (items ! i) i (shared p)")
  show ?thesis
  proof (cases r)
    case (Inl e)
    then show ?thesis using i m assms(1) by (simp add: settle_def poolMeasure_def)
  next
    case (Inr v)
    show ?thesis
    proof (cases "nextIndex p < length items")
      case True
      then show ?thesis
        using i m Inr assms(1) w filter_update_same [of w "workers p" "Awaiting (nextIndex p)"]
        by (simp add: settle_def poolMeasure_def runWorkerLoop_def)
    next
      case False
      then show ?thesis
        using i m Inr assms(1) w filter_update_less [of w "workers p" Finished]
        by (simp add: settle_def poolMeasure_def runWorkerLoop_def)
    qed
  qed
qed

text \<open>
  The run until \<open>Promise.all\<close> settles: while no worker has thrown and some worker waits,
  the scheduler \<open>sched\<close> picks which waiting promise settles next. Every order of completion
  is the run of some scheduler.
\<close>

function runWorkers ::
  "('a, 'b, 'e, 's) mapper \<Rightarrow> 'a list \<Rightarrow> (nat \<Rightarrow> nat) \<Rightarrow> nat \<Rightarrow> ('b, 'e, 's) pool \<Rightarrow> ('b, 'e, 's) pool" where
  "runWorkers mapper items sched t p =
     (if rejection p \<noteq> None \<or> awaitingWorkers p = [] then p
      else runWorkers mapper items sched (t + 1)
             (settle mapper items (awaitingWorkers p ! (sched t mod length (awaitingWorkers p))) p))"
  by pat_completeness auto
termination
proof (relation "measure (\<lambda>(mapper, items, sched, t, p). poolMeasure (length items) p)", goal_cases)
  case 1
  show ?case by simp
next
  case (2 mapper items sched t p)
  then have "awaitingWorkers p ! (sched t mod length (awaitingWorkers p)) \<in> set (awaitingWorkers p)"
    by simp
  then show ?case
    using 2 settle_decreases [of p _ items mapper] by simp
qed

declare runWorkers.simps [simp del]

definition mapWithConcurrencyLimit ::
  "'a list \<Rightarrow> int \<Rightarrow> ('a, 'b, 'e, 's) mapper \<Rightarrow> (nat \<Rightarrow> nat) \<Rightarrow> 's \<Rightarrow> ('e + 'b option list) \<times> 's" where
  "mapWithConcurrencyLimit items limit mapper sched s0 =
     (let n = length items;
          workerCount = nat (min limit (int n));
          p0 = \<lparr> nextIndex = 0, results = replicate n None, workers = [], rejection = None, shared = s0 \<rparr>;
          p = runWorkers mapper items sched 0 ((startWorker n ^^ workerCount) p0)
      in (case rejection p of Some e \<Rightarrow> Inl e | None \<Rightarrow> Inr (results p), shared p))"


text \<open>
  The invariant of the pool for a mapper that resolves with \<open>f item index\<close>: a claimed index
  is below the cursor, every index below the cursor is awaited or has its result stored, and
  until the cursor reaches the end every worker is waiting.
\<close>

definition poolInv :: "'a list \<Rightarrow> ('a \<Rightarrow> nat \<Rightarrow> 'b) \<Rightarrow> ('b, 'e, 's) pool \<Rightarrow> bool" where
  "poolInv items f p =
     (length (results p) = length items \<and> nextIndex p \<le> length items \<and> rejection p = None
      \<and> (nextIndex p = length items \<or> (workers p \<noteq> [] \<and> list_all isAwaiting (workers p)))
      \<and> (\<forall>w i. w < length (workers p) \<and> workers p ! w = Awaiting i \<longrightarrow> i < nextIndex p)
      \<and> (\<forall>i < nextIndex p. (\<exists>w < length (workers p). workers p ! w = Awaiting i)
                               \<or> results p ! i = Some (f (items ! i) i)))"

section \<open>Controller (client.ts)\<close>

datatype SelectionFinalizeProgress =
    BuildingContext nat nat
  | Sending nat nat
  | Done nat nat
  | ErrorPhase nat nat jsstring

record 'ctx GrabrSession =
  sessionId :: jsstring
  createdAt :: jsstring
  sessionUrl :: jsstring
  userInstruction :: "jsstring option"
  summary :: "jsstring option"
  elements :: "'ctx list"

text \<open>
  What a finalize does to the outside, in order: calls of the progress callback, console
  warnings, toasts of the overlay, and calls of the provider's hooks.
\<close>

datatype effect =
    OnProgress SelectionFinalizeProgress
  | ConsoleWarn
  | ShowToast jsstring bool
  | ProviderOnSuccess
  | ProviderOnError jsstring

record 'ctx controller =
  currentSession :: "'ctx GrabrSession option"
  currentInstruction :: "jsstring option"

text \<open>The variables the mapper of \<open>finalizeSelection\<close> closes over.\<close>

record capture =
  completed :: nat
  failed :: nat
  effects :: "effect list"

text \<open>What a finalize reads from its environment: the clock, the location, a fresh id.\<close>

record world =
  isoTime :: jsstring
  locationHref :: jsstring
  freshSessionId :: jsstring

datatype completion = Resolved | Rejected

text \<open>
  The mapper passed to \<open>mapWithConcurrencyLimit\<close>. The inspector gives \<open>None\<close> for an element
  whose \<open>getElementContext\<close> rejects; the mapper catches that and resolves with null.
\<close>

definition captureMapper ::
  "('el \<Rightarrow> 'ctx option) \<Rightarrow> nat \<Rightarrow> ('el, 'ctx option, unit, capture) mapper" where
  "captureMapper inspector totalCount el index c =
     (case inspector el of
        Some ctx \<Rightarrow>
          (Inr (Some ctx),
           c\<lparr> completed := completed c + 1,
              effects := effects c @ [OnProgress (BuildingContext (completed c + 1) totalCount)] \<rparr>)
      | None \<Rightarrow>
          (Inr None,
           c\<lparr> failed := failed c + 1, completed := completed c + 1,
              effects := effects c
                @ [ConsoleWarn, OnProgress (BuildingContext (completed c + 1) totalCount)] \<rparr>))"

text \<open>\<open>contextsOrNull.filter((c) => c !== null)\<close>; \<open>filter\<close> skips the slots never written.\<close>

fun capturedContexts :: "'ctx option option list \<Rightarrow> 'ctx list" where
  "capturedContexts [] = []"
| "capturedContexts (Some (Some c) # rest) = c # capturedContexts rest"
| "capturedContexts (r # rest) = capturedContexts rest"

text \<open>
  \<open>sendContext\<close> gives \<open>None\<close> when the provider's promise resolves and the message of the
  error when it rejects.
\<close>

definition finalizeSelection ::
  "world \<Rightarrow> ('el \<Rightarrow> 'ctx option) \<Rightarrow> ('ctx GrabrSession \<Rightarrow> jsstring option) \<Rightarrow> ('el \<Rightarrow> bool)
     \<Rightarrow> (nat \<Rightarrow> nat) \<Rightarrow> 'el list \<Rightarrow> 'ctx controller
     \<Rightarrow> completion \<times> 'ctx controller \<times> effect list" where
  "finalizeSelection w inspector sendContext isElementConnectedToDocument sched els ctl =
     (let connected = filter isElementConnectedToDocument (dedupeElementsPreserveOrder els) in
      if length connected = 0 then
        (Resolved, ctl, [OnProgress (ErrorPhase 0 0 (str ''No valid elements to capture.''))])
      else
        (let totalCount = length connected;
             c0 = \<lparr> completed = 0, failed = 0, effects = [OnProgress (BuildingContext 0 totalCount)] \<rparr>;
             (outcome, c) =
               mapWithConcurrencyLimit connected 2 (captureMapper inspector totalCount) sched c0
         in case outcome of
              Inl e \<Rightarrow> (Rejected, ctl, effects c)
            | Inr contextsOrNull \<Rightarrow>
                (let contexts = capturedContexts contextsOrNull in
                 if length contexts = 0 then
                   (Resolved, ctl,
                    effects c
                      @ [OnProgress (ErrorPhase (completed c) totalCount
                           (str ''Failed to capture context for all selected elements.''))])
                 else
                   (let summaryText =
                          (if failed c > 0
                           then str ''Session with '' @ toString10 (length contexts)
                                  @ str '' element(s) captured; '' @ toString10 (failed c)
                                  @ str '' failed.''
                           else str ''Session with '' @ toString10 (length contexts)
                                  @ str '' element(s) captured.'');
                        session =
                          \<lparr> sessionId = freshSessionId w, createdAt = isoTime w,
                            sessionUrl = locationHref w,
                            userInstruction = currentInstruction ctl,
                            summary = Some summaryText, elements = contexts \<rparr>;
                        ctl' = ctl\<lparr> currentSession := Some session \<rparr>;
                        effs = effects c @ [OnProgress (Sending totalCount totalCount)]
                    in case sendContext session of
                         None \<Rightarrow>
                           (Resolved, ctl',
                            effs
                              @ [ProviderOnSuccess, OnProgress (Done totalCount totalCount),
                                 ShowToast
                                   (if length contexts = 1 then str ''Copied context for 1 element.''
                                    else str ''Copied context for '' @ toString10 (length contexts)
                                           @ str '' elements.'')
                                   False]
                              @ (if failed c > 0
                                 then [ShowToast
                                         (str ''Warning: '' @ toString10 (failed c)
                                            @ str '' element(s) failed to capture.'')
                                         True]
                                 else []))
                       | Some message \<Rightarrow>
                           (Resolved, ctl',
                            effs
                              @ [ProviderOnError message,
                                 OnProgress (ErrorPhase totalCount totalCount message),
                                 ShowToast message True])))))"

section \<open>Selection overlay (client.ts)\<close>

text \<open>
  The status line of the HUD, kept as the data its text is formatted from.
\<close>

datatype 'el hudText =
    HudIdle
  | HudCapturing nat
  | HudHovering 'el
  | HudHoverPrompt
  | HudSelectedOne 'el
  | HudSelectedMany nat 'el
  | HudProgress SelectionFinalizeProgress

text \<open>
  The state of the overlay: its private fields, and of the elements it owns what the code
  sets: the boxes drawn (one for each outlined element), which listeners are attached,
  the display of the highlight, and the \<open>visible\<close> class of the label, the HUD, the help
  and the toast.
\<close>

record 'el overlay =
  selecting :: bool
  sending :: bool
  helpVisible :: bool
  hoveredElement :: "'el option"
  selectedElements :: "'el list"
  selectionBoxes :: "'el list"
  rafPending :: bool
  rafReflowPending :: bool
  listenersAttached :: bool
  highlightShown :: bool
  highlightLabelVisible :: bool
  hudVisible :: bool
  hudHelpVisible :: bool
  hudStatus :: "'el hudText"
  toastShown :: "(jsstring \<times> bool) option"

text \<open>
  What the overlay reads from the document: whether an element is connected, whether the
  overlay's root contains it, its parent element, and whether its bounding rectangle is
  finite with positive width and height.
\<close>

record 'el dom =
  connected :: "'el \<Rightarrow> bool"
  inOverlayRoot :: "'el \<Rightarrow> bool"
  parentElement :: "'el \<Rightarrow> 'el option"
  hasBox :: "'el \<Rightarrow> bool"

definition clearSelectionBoxes :: "'el overlay \<Rightarrow> 'el overlay" where
  "clearSelectionBoxes ov = ov\<lparr> selectionBoxes := [] \<rparr>"

definition updateSelectionBoxes :: "'el dom \<Rightarrow> 'el overlay \<Rightarrow> 'el overlay" where
  "updateSelectionBoxes d ov =
     (clearSelectionBoxes ov)
       \<lparr> selectionBoxes := filter (\<lambda>el. connected d el \<and> hasBox d el) (selectedElements ov) \<rparr>"

definition updateHudState :: "'el overlay \<Rightarrow> 'el overlay" where
  "updateHudState ov =
     ov\<lparr> hudStatus :=
          (if \<not> selecting ov then HudIdle
           else if sending ov then HudCapturing (length (selectedElements ov))
           else if length (selectedElements ov) = 0 then
             (case hoveredElement ov of Some h \<Rightarrow> HudHovering h | None \<Rightarrow> HudHoverPrompt)
           else if length (selectedElements ov) = 1 then HudSelectedOne (hd (selectedElements ov))
           else HudSelectedMany (length (selectedElements ov)) (last (selectedElements ov))) \<rparr>"

definition updateHudProgress :: "SelectionFinalizeProgress \<Rightarrow> 'el overlay \<Rightarrow> 'el overlay" where
  "updateHudProgress progress ov = ov\<lparr> hudStatus := HudProgress progress \<rparr>"

definition attachSelectionListeners :: "'el overlay \<Rightarrow> 'el overlay" where
  "attachSelectionListeners ov = ov\<lparr> listenersAttached := True \<rparr>"

definition detachSelectionListeners :: "'el overlay \<Rightarrow> 'el overlay" where
  "detachSelectionListeners ov = ov\<lparr> listenersAttached := False \<rparr>"

definition beginSelection :: "'el overlay \<Rightarrow> 'el overlay" where
  "beginSelection ov =
     (if sending ov then ov
      else attachSelectionListeners (updateHudState
             ((clearSelectionBoxes
                 (ov\<lparr> selectedElements := [], hoveredElement := None, helpVisible := False \<rparr>))
                \<lparr> selecting := True, hudVisible := True \<rparr>)))"

definition cancelSelection :: "'el overlay \<Rightarrow> 'el overlay" where
  "cancelSelection ov =
     (clearSelectionBoxes (detachSelectionListeners
        (ov\<lparr> selecting := False, sending := False, helpVisible := False,
             hoveredElement := None, selectedElements := [] \<rparr>)))
       \<lparr> highlightShown := False, hudVisible := False, hudHelpVisible := False \<rparr>"

definition showToast :: "jsstring \<Rightarrow> bool \<Rightarrow> 'el overlay \<Rightarrow> 'el overlay" where
  "showToast message isError ov = ov\<lparr> toastShown := Some (message, isError) \<rparr>"

definition toggleHelp :: "'el overlay \<Rightarrow> 'el overlay" where
  "toggleHelp ov = ov\<lparr> helpVisible := \<not> helpVisible ov, hudHelpVisible := \<not> helpVisible ov \<rparr>"

definition clearSelection :: "'el dom \<Rightarrow> 'el overlay \<Rightarrow> 'el overlay" where
  "clearSelection d ov = updateHudState (updateSelectionBoxes d (ov\<lparr> selectedElements := [] \<rparr>))"

definition undoSelection :: "'el dom \<Rightarrow> 'el overlay \<Rightarrow> 'el overlay" where
  "undoSelection d ov =
     (if length (selectedElements ov) = 0 then ov
      else updateHudState
             (updateSelectionBoxes d (ov\<lparr> selectedElements := butlast (selectedElements ov) \<rparr>)))"

definition updateHighlight :: "'el dom \<Rightarrow> 'el overlay \<Rightarrow> 'el overlay" where
  "updateHighlight d ov =
     (case hoveredElement ov of
        None \<Rightarrow> ov\<lparr> highlightShown := False, highlightLabelVisible := False \<rparr>
      | Some el \<Rightarrow>
          (if \<not> connected d el then ov\<lparr> highlightShown := False, highlightLabelVisible := False \<rparr>
           else if \<not> hasBox d el then ov\<lparr> highlightShown := False, highlightLabelVisible := False \<rparr>
           else updateHudState (ov\<lparr> highlightShown := True, highlightLabelVisible := True \<rparr>)))"

definition selectHoveredParent :: "'el dom \<Rightarrow> 'el overlay \<Rightarrow> 'el overlay" where
  "selectHoveredParent d ov =
     (case hoveredElement ov of
        None \<Rightarrow> ov
      | Some h \<Rightarrow>
          (case parentElement d h of
             None \<Rightarrow> ov
           | Some parent \<Rightarrow>
               (if inOverlayRoot d parent then ov
                else updateHighlight d (ov\<lparr> hoveredElement := Some parent \<rparr>))))"

definition reflowOverlays :: "'el dom \<Rightarrow> 'el overlay \<Rightarrow> 'el overlay" where
  "reflowOverlays d ov = updateSelectionBoxes d (updateHighlight d ov)"

text \<open>\<open>splice(index, 1)\<close> at the first index of the element.\<close>

fun removeFirst :: "'el \<Rightarrow> 'el list \<Rightarrow> 'el list" where
  "removeFirst el [] = []"
| "removeFirst el (a # rest) = (if a = el then rest else a # removeFirst el rest)"

definition toggleSelection :: "'el dom \<Rightarrow> 'el \<Rightarrow> bool \<Rightarrow> 'el overlay \<Rightarrow> 'el overlay" where
  "toggleSelection d el multi ov =
     (let chosen =
            (if \<not> multi then [el]
             else if el \<in> set (selectedElements ov) then removeFirst el (selectedElements ov)
             else selectedElements ov @ [el])
      in updateHudState
           (updateSelectionBoxes d (ov\<lparr> selectedElements := filter (connected d) chosen \<rparr>)))"

text \<open>
  The part of the overlay's \<open>finalizeSelection\<close> that runs before it awaits the controller:
  the state it leaves, and the elements it passes to the controller when it enters the
  sending state (\<open>None\<close> when it cancels instead).
\<close>

definition finalizeStart :: "'el dom \<Rightarrow> 'el overlay \<Rightarrow> 'el overlay \<times> 'el list option" where
  "finalizeStart d ov =
     (let ov1 =
            (case hoveredElement ov of
               Some h \<Rightarrow> if length (selectedElements ov) = 0 then ov\<lparr> selectedElements := [h] \<rparr> else ov
             | None \<Rightarrow> ov);
          connectedEls = filter (connected d) (dedupeElementsPreserveOrder (selectedElements ov1))
      in if length connectedEls = 0 then (cancelSelection ov1, None)
         else ((detachSelectionListeners (updateHudState (ov1\<lparr> sending := True \<rparr>)))
                 \<lparr> highlightShown := False \<rparr>,
               Some connectedEls))"

text \<open>The \<open>finally\<close> block of the overlay's \<open>finalizeSelection\<close>.\<close>

definition finalizeCleanup :: "'el overlay \<Rightarrow> 'el overlay" where
  "finalizeCleanup ov =
     (clearSelectionBoxes (ov\<lparr> selecting := False, sending := False, helpVisible := False \<rparr>))
       \<lparr> hudVisible := False, hudHelpVisible := False \<rparr>"

text \<open>
  What can happen to the overlay: the global hotkey, the events of the selection listeners
  (delivered only while these are attached), the two animation-frame callbacks, the
  controller's progress reports and toasts, the expiry of the toast, and the completion of
  a finalize that is in flight, which runs its \<open>finally\<close> block.
\<close>

datatype 'el event =
    HotkeyDown
  | MouseMoved 'el
  | Clicked 'el nat bool
  | KeyPressed jsstring
  | ViewportChanged
  | HighlightFrame
  | ReflowFrame
  | ProgressReported SelectionFinalizeProgress
  | ToastRequested jsstring bool
  | ToastExpired
  | FinalizeSettled

definition globalToggleHandler :: "'el overlay \<Rightarrow> 'el overlay" where
  "globalToggleHandler ov =
     (if selecting ov \<or> sending ov then cancelSelection ov else beginSelection ov)"

definition onViewportChange :: "'el overlay \<Rightarrow> 'el overlay" where
  "onViewportChange ov =
     (if \<not> selecting ov then ov
      else if rafReflowPending ov then ov
      else ov\<lparr> rafReflowPending := True \<rparr>)"

definition onMouseMove :: "'el dom \<Rightarrow> 'el \<Rightarrow> 'el overlay \<Rightarrow> 'el overlay" where
  "onMouseMove d target ov =
     (if \<not> selecting ov \<or> sending ov then ov
      else if inOverlayRoot d target then ov
      else if hoveredElement ov = Some target then ov
      else if rafPending ov then ov\<lparr> hoveredElement := Some target \<rparr>
      else ov\<lparr> hoveredElement := Some target, rafPending := True \<rparr>)"

definition onClick :: "'el dom \<Rightarrow> 'el \<Rightarrow> nat \<Rightarrow> bool \<Rightarrow> 'el overlay \<Rightarrow> 'el overlay" where
  "onClick d target button multi ov =
     (if \<not> selecting ov \<or> sending ov then ov
      else if button \<noteq> 0 then ov
      else if inOverlayRoot d target then ov
      else toggleSelection d target multi ov)"

definition onKeyDown :: "'el dom \<Rightarrow> jsstring \<Rightarrow> 'el overlay \<Rightarrow> 'el overlay" where
  "onKeyDown d key ov =
     (if \<not> selecting ov \<or> sending ov then ov
      else if key = str ''Escape'' then cancelSelection ov
      else if key = str ''Enter'' then fst (finalizeStart d ov)
      else if key = str ''Backspace'' then undoSelection d ov
      else if key = str ''?'' \<or> toLowerCase key = str ''h'' then toggleHelp ov
      else if key = str ''ArrowUp'' \<or> toLowerCase key = str ''p'' then selectHoveredParent d ov
      else if toLowerCase key = str ''x'' then clearSelection d ov
      else ov)"

fun handleEvent :: "'el dom \<Rightarrow> 'el event \<Rightarrow> 'el overlay \<Rightarrow> 'el overlay" where
  "handleEvent d HotkeyDown ov = globalToggleHandler ov"
| "handleEvent d (MouseMoved target) ov =
     (if listenersAttached ov then onMouseMove d target ov else ov)"
| "handleEvent d (Clicked target button multi) ov =
     (if listenersAttached ov then onClick d target button multi ov else ov)"
| "handleEvent d (KeyPressed key) ov =
     (if listenersAttached ov then onKeyDown d key ov else ov)"
| "handleEvent d ViewportChanged ov =
     (if listenersAttached ov then onViewportChange ov else ov)"
| "handleEvent d HighlightFrame ov =
     (if rafPending ov then updateHighlight d (ov\<lparr> rafPending := False \<rparr>) else ov)"
| "handleEvent d ReflowFrame ov =
     (if rafReflowPending ov then reflowOverlays d (ov\<lparr> rafReflowPending := False \<rparr>) else ov)"
| "handleEvent d (ProgressReported progress) ov = updateHudProgress progress ov"
| "handleEvent d (ToastRequested message isError) ov = showToast message isError ov"
| "handleEvent d ToastExpired ov = ov\<lparr> toastShown := None \<rparr>"
| "handleEvent d FinalizeSettled ov = finalizeCleanup ov"

text \<open>
  The overlay's \<open>finalizeSelection\<close> as a whole. When it enters the sending state it awaits
  the controller; \<open>during\<close> are the events handled before the controller's promise settles,
  in order, and \<open>outcome\<close> tells whether that promise resolved or rejected. The \<open>finally\<close>
  block runs in both cases, and a rejection is passed on.
\<close>

definition overlayFinalizeSelection ::
  "'el dom \<Rightarrow> 'el event list \<Rightarrow> completion \<Rightarrow> 'el overlay \<Rightarrow> completion \<times> 'el overlay" where
  "overlayFinalizeSelection d during outcome ov =
     (case finalizeStart d ov of
        (ov', None) \<Rightarrow> (Resolved, ov')
      | (ov', Some connectedEls) \<Rightarrow>
          (outcome, finalizeCleanup (foldl (\<lambda>st e. handleEvent d e st) ov' during)))"

text \<open>
  The effects of a capture in which every element fails, after \<open>k\<close> of them: the first
  building-context report, then a warning and a report for each failure.
\<close>

definition captureLog :: "nat \<Rightarrow> nat \<Rightarrow> effect list" where
  "captureLog totalCount k =
     OnProgress (BuildingContext 0 totalCount)
       # concat (map (\<lambda>j. [ConsoleWarn, OnProgress (BuildingContext (Suc j) totalCount)]) [0..<k])"

section \<open>Records of a context (schema.ts)\<close>

text \<open>
  The parts of an element context that the serializer reads field by field are records.
  The parts it only hands to \<open>JSON.stringify\<close> (the DOM summaries, the style groups, the
  test hints) are kept as the JavaScript values they are.
\<close>

record BoundingBox =
  boxX :: jsnumber
  boxY :: jsnumber
  boxWidth :: jsnumber
  boxHeight :: jsnumber

record SelectionIdentity =
  identityTag :: jsstring
  identityId :: "jsstring option"
  identityDataTestId :: "jsstring option"
  identityRole :: "jsstring option"
  identityClasses :: "jsstring list"

record SelectionInfo =
  selectionTag :: jsstring
  boundingBox :: BoundingBox
  identity :: SelectionIdentity
  componentDisplayName :: "jsstring option"
  nearestSource :: "SourceLocation option"
  isLikelyServerComponent :: "bool option"

record DomNeighborhood =
  snippet :: jsstring
  domParents :: jsvalue
  domSiblings :: jsvalue
  domChildren :: jsvalue
  domSelectors :: jsvalue

record StyleFrame =
  styleLayout :: jsvalue
  styleSpacing :: jsvalue
  styleSize :: jsvalue
  styleTypography :: jsvalue
  styleColors :: jsvalue
  clickable :: bool
  ruleSummaries :: jsvalue

datatype EventKind =
    EventClick | EventChange | EventSubmit | EventInput | EventFocus | EventBlur
  | EventKey | EventPointer | EventOther

datatype BehaviorInferenceLevel = InferenceNone | InferencePropNameOnly

datatype BehaviorInferenceSource = InferredFromPropName | InferredFromRuntimeHook

record EventHandlerInfo =
  handlerPropName :: jsstring
  inferredKind :: EventKind
  functionName :: "jsstring option"
  declaredOnComponent :: "jsstring option"
  handlerSource :: "SourceLocation option"
  handlerComment :: "jsstring option"
  inferenceSource :: BehaviorInferenceSource

record BehaviorContext =
  inferenceLevel :: BehaviorInferenceLevel
  handlers :: "EventHandlerInfo list"

record TestsBlock =
  testHints :: "jsvalue list"

datatype ReactBuildType = BuildDevelopment | BuildProduction | BuildUnknown

datatype ReactInspectorStatus =
  InspectorOk | InspectorNoHook | InspectorInactive | InspectorNoFiber | InspectorError

record ReactDebugInfo =
  buildType :: ReactBuildType
  inspectorStatus :: ReactInspectorStatus
  debugMessage :: "jsstring option"

text \<open>
  \<open>version\<close> is always 2. \<open>reactDebug\<close> is optional here because the serializer provides
  for its absence; \<open>tests\<close> is optional in the schema.
\<close>

record ElementContextV2 =
  selection :: SelectionInfo
  domNeighborhood :: DomNeighborhood
  react :: "ReactTreeSlice option"
  reactDebug :: "ReactDebugInfo option"
  styling :: StyleFrame
  behavior :: BehaviorContext
  app :: AppContext
  tests :: "TestsBlock option"

section \<open>Records as JavaScript objects\<close>

text \<open>
  The object a record is at run time, with its properties in the order in which the
  builders of the repository write them, which is the order of the schema.
\<close>

definition optString :: "jsstring option \<Rightarrow> jsvalue" where
  "optString v = (case v of None \<Rightarrow> JNull | Some s \<Rightarrow> JStr s)"

definition optNumber :: "jsnumber option \<Rightarrow> jsvalue" where
  "optNumber v = (case v of None \<Rightarrow> JNull | Some n \<Rightarrow> JNum n)"

definition optBool :: "bool option \<Rightarrow> jsvalue" where
  "optBool v = (case v of None \<Rightarrow> JNull | Some b \<Rightarrow> JBool b)"

fun confidenceString :: "SourceConfidence \<Rightarrow> jsstring" where
  "confidenceString ConfidenceNone = str ''none''"
| "confidenceString ConfidenceLow = str ''low''"
| "confidenceString ConfidenceMedium = str ''medium''"
| "confidenceString ConfidenceHigh = str ''high''"

fun originString :: "SourceOrigin \<Rightarrow> jsstring" where
  "originString OriginBippy = str ''bippy''"
| "originString OriginSourcemap = str ''sourcemap''"
| "originString OriginInline = str ''inline''"
| "originString OriginUnknown = str ''unknown''"

fun reasonString :: "PropReason \<Rightarrow> jsstring" where
  "reasonString ReasonText = str ''text''"
| "reasonString ReasonDesign = str ''design''"
| "reasonString ReasonChildren = str ''children''"
| "reasonString ReasonTestId = str ''test-id''"
| "reasonString ReasonAriaLabel = str ''aria-label''"
| "reasonString ReasonOther = str ''other''"

fun eventKindString :: "EventKind \<Rightarrow> jsstring" where
  "eventKindString EventClick = str ''click''"
| "eventKindString EventChange = str ''change''"
| "eventKindString EventSubmit = str ''submit''"
| "eventKindString EventInput = str ''input''"
| "eventKindString EventFocus = str ''focus''"
| "eventKindString EventBlur = str ''blur''"
| "eventKindString EventKey = str ''key''"
| "eventKindString EventPointer = str ''pointer''"
| "eventKindString EventOther = str ''other''"

fun inferenceLevelString :: "BehaviorInferenceLevel \<Rightarrow> jsstring" where
  "inferenceLevelString InferenceNone = str ''none''"
| "inferenceLevelString InferencePropNameOnly = str ''prop-name-only''"

fun inferenceSourceString :: "BehaviorInferenceSource \<Rightarrow> jsstring" where
  "inferenceSourceString InferredFromPropName = str ''prop-name''"
| "inferenceSourceString InferredFromRuntimeHook = str ''runtime-hook''"

fun dataSourceKindString :: "DataSourceKind \<Rightarrow> jsstring" where
  "dataSourceKindString KindReactQuery = str ''react-query''"
| "dataSourceKindString KindSwr = str ''swr''"
| "dataSourceKindString KindRedux = str ''redux''"
| "dataSourceKindString KindTrpc = str ''trpc''"
| "dataSourceKindString KindCustom = str ''custom''"
| "dataSourceKindString KindUnknown = str ''unknown''"

fun frameworkString :: "InferredFramework \<Rightarrow> jsstring" where
  "frameworkString NextApp = str ''next-app''"
| "frameworkString NextPages = str ''next-pages''"
| "frameworkString Remix = str ''remix''"
| "frameworkString ReactRouter = str ''react-router''"
| "frameworkString FrameworkUnknown = str ''unknown''"

fun buildTypeString :: "ReactBuildType \<Rightarrow> jsstring" where
  "buildTypeString BuildDevelopment = str ''development''"
| "buildTypeString BuildProduction = str ''production''"
| "buildTypeString BuildUnknown = str ''unknown''"

fun inspectorStatusString :: "ReactInspectorStatus \<Rightarrow> jsstring" where
  "inspectorStatusString InspectorOk = str ''ok''"
| "inspectorStatusString InspectorNoHook = str ''no-hook''"
| "inspectorStatusString InspectorInactive = str ''inactive''"
| "inspectorStatusString InspectorNoFiber = str ''no-fiber''"
| "inspectorStatusString InspectorError = str ''error''"

definition sourceToJS :: "SourceLocation \<Rightarrow> jsvalue" where
  "sourceToJS source =
     JObj [(str ''fileName'', JStr (fileName source)),
           (str ''lineNumber'', optNumber (lineNumber source)),
           (str ''columnNumber'', optNumber (columnNumber source)),
           (str ''confidence'', JStr (confidenceString (confidence source))),
           (str ''origin'', JStr (originString (origin source)))]"

definition optSourceToJS :: "SourceLocation option \<Rightarrow> jsvalue" where
  "optSourceToJS v = (case v of None \<Rightarrow> JNull | Some source \<Rightarrow> sourceToJS source)"

definition flagsToJS :: "ComponentFlags \<Rightarrow> jsvalue" where
  "flagsToJS f =
     JObj [(str ''isHost'', JBool (flagIsHost f)),
           (str ''isComposite'', JBool (flagIsComposite f)),
           (str ''isSuspenseBoundary'', optBool (isSuspenseBoundary f)),
           (str ''isErrorBoundary'', optBool (isErrorBoundary f)),
           (str ''isServerComponent'', optBool (isServerComponent f)),
           (str ''isLayoutLike'', optBool (isLayoutLike f))]"

definition frameToJS :: "ReactComponentFrame \<Rightarrow> jsvalue" where
  "frameToJS frame =
     JObj [(str ''displayName'', optString (displayName frame)),
           (str ''isHost'', JBool (isHost frame)),
           (str ''source'', optSourceToJS (frameSource frame)),
           (str ''flags'', flagsToJS (flags frame))]"

definition propHighlightToJS :: "PropHighlight \<Rightarrow> jsvalue" where
  "propHighlightToJS h =
     JObj [(str ''name'', JStr (propName h)),
           (str ''value'', propValue h),
           (str ''reason'', JStr (reasonString (propReason h)))]"

definition propsToJS :: "PropsSnapshot option \<Rightarrow> jsvalue" where
  "propsToJS v =
     (case v of
        None \<Rightarrow> JNull
      | Some props \<Rightarrow>
          JObj [(str ''totalProps'', JNum (totalProps props)),
                (str ''highlighted'', JArr (map propHighlightToJS (highlighted props)))])"

definition stateEntryToJS :: "StateSnapshotEntry \<Rightarrow> jsvalue" where
  "stateEntryToJS e = JObj [(str ''hookIndex'', JNum (hookIndex e)), (str ''value'', hookValue e)]"

definition stateToJS :: "StateSnapshot option \<Rightarrow> jsvalue" where
  "stateToJS v =
     (case v of
        None \<Rightarrow> JNull
      | Some st \<Rightarrow>
          JObj [(str ''totalHooks'', JNum (totalHooks st)),
                (str ''entries'', JArr (map stateEntryToJS (stateEntries st)))])"

definition contextEntryToJS :: "ContextEntry \<Rightarrow> jsvalue" where
  "contextEntryToJS e = JObj [(str ''index'', JNum (contextIndex e)), (str ''value'', contextValue e)]"

definition contextsToJS :: "ContextSnapshot option \<Rightarrow> jsvalue" where
  "contextsToJS v =
     (case v of
        None \<Rightarrow> JNull
      | Some cs \<Rightarrow>
          JObj [(str ''totalContexts'', JNum (totalContexts cs)),
                (str ''entries'', JArr (map contextEntryToJS (contextEntries cs)))])"

definition sliceToJS :: "ReactTreeSlice option \<Rightarrow> jsvalue" where
  "sliceToJS v =
     (case v of
        None \<Rightarrow> JNull
      | Some r \<Rightarrow>
          JObj [(str ''stack'', JArr (map frameToJS (stack r))),
                (str ''ownerIndex'', optNumber (ownerIndex r)),
                (str ''ownerProps'', propsToJS (ownerProps r)),
                (str ''ownerState'', stateToJS (ownerState r)),
                (str ''ownerContexts'', contextsToJS (ownerContexts r))])"

definition selectionToJS :: "SelectionInfo \<Rightarrow> jsvalue" where
  "selectionToJS s =
     JObj [(str ''tag'', JStr (selectionTag s)),
           (str ''boundingBox'',
              JObj [(str ''x'', JNum (boxX (boundingBox s))),
                    (str ''y'', JNum (boxY (boundingBox s))),
                    (str ''width'', JNum (boxWidth (boundingBox s))),
                    (str ''height'', JNum (boxHeight (boundingBox s)))]),
           (str ''identity'',
              JObj [(str ''tag'', JStr (identityTag (identity s))),
                    (str ''id'', optString (identityId (identity s))),
                    (str ''dataTestId'', optString (identityDataTestId (identity s))),
                    (str ''role'', optString (identityRole (identity s))),
                    (str ''classes'', JArr (map JStr (identityClasses (identity s))))]),
           (str ''componentDisplayName'', optString (componentDisplayName s)),
           (str ''nearestSource'', optSourceToJS (nearestSource s)),
           (str ''isLikelyServerComponent'', optBool (isLikelyServerComponent s))]"

definition domToJS :: "DomNeighborhood \<Rightarrow> jsvalue" where
  "domToJS n =
     JObj [(str ''snippet'', JStr (snippet n)),
           (str ''parents'', domParents n),
           (str ''siblings'', domSiblings n),
           (str ''children'', domChildren n),
           (str ''selectors'', domSelectors n)]"

definition debugToJS :: "ReactDebugInfo \<Rightarrow> jsvalue" where
  "debugToJS dbg =
     JObj [(str ''buildType'', JStr (buildTypeString (buildType dbg))),
           (str ''inspectorStatus'', JStr (inspectorStatusString (inspectorStatus dbg))),
           (str ''message'', optString (debugMessage dbg))]"

definition styleToJS :: "StyleFrame \<Rightarrow> jsvalue" where
  "styleToJS st =
     JObj [(str ''layout'', styleLayout st),
           (str ''spacing'', styleSpacing st),
           (str ''size'', styleSize st),
           (str ''typography'', styleTypography st),
           (str ''colors'', styleColors st),
           (str ''clickable'', JBool (clickable st)),
           (str ''ruleSummaries'', ruleSummaries st)]"

definition handlerToJS :: "EventHandlerInfo \<Rightarrow> jsvalue" where
  "handlerToJS h =
     JObj [(str ''propName'', JStr (handlerPropName h)),
           (str ''inferredKind'', JStr (eventKindString (inferredKind h))),
           (str ''functionName'', optString (functionName h)),
           (str ''declaredOnComponent'', optString (declaredOnComponent h)),
           (str ''source'', optSourceToJS (handlerSource h)),
           (str ''comment'', optString (handlerComment h)),
           (str ''inferenceSource'', JStr (inferenceSourceString (inferenceSource h)))]"

definition behaviorToJS :: "BehaviorContext \<Rightarrow> jsvalue" where
  "behaviorToJS b =
     JObj [(str ''inferenceLevel'', JStr (inferenceLevelString (inferenceLevel b))),
           (str ''handlers'', JArr (map handlerToJS (handlers b)))]"

definition hintToJS :: "DataSourceHint \<Rightarrow> jsvalue" where
  "hintToJS h =
     JObj [(str ''kind'', JStr (dataSourceKindString (hintKind h))),
           (str ''identifier'', optString (hintIdentifier h)),
           (str ''description'', optString (hintDescription h))]"

definition routeParamsToJS :: "(jsstring \<times> jsstring) list option \<Rightarrow> jsvalue" where
  "routeParamsToJS v =
     (case v of None \<Rightarrow> JNull | Some params \<Rightarrow> JObj (map (\<lambda>kv. (fst kv, JStr (snd kv))) params))"

definition appToJS :: "AppContext \<Rightarrow> jsvalue" where
  "appToJS a =
     JObj [(str ''url'', JStr (appUrl a)),
           (str ''pathname'', JStr (appPathname a)),
           (str ''search'', JStr (appSearch a)),
           (str ''hash'', JStr (appHash a)),
           (str ''framework'', JStr (frameworkString (framework a))),
           (str ''routePatternGuess'', optString (routePatternGuess a)),
           (str ''routeParamsGuess'', routeParamsToJS (routeParamsGuess a)),
           (str ''pageComponent'', optSourceToJS (pageComponent a)),
           (str ''layoutComponents'', JArr (map sourceToJS (layoutComponents a))),
           (str ''dataSources'', JArr (map hintToJS (dataSources a)))]"

definition contextToJS :: "ElementContextV2 \<Rightarrow> jsvalue" where
  "contextToJS c =
     JObj ([(str ''version'', JNum (Fin 2)),
            (str ''selection'', selectionToJS (selection c)),
            (str ''dom'', domToJS (domNeighborhood c)),
            (str ''react'', sliceToJS (react c))]
           @ (case reactDebug c of None \<Rightarrow> [] | Some dbg \<Rightarrow> [(str ''reactDebug'', debugToJS dbg)])
           @ [(str ''styling'', styleToJS (styling c)),
              (str ''behavior'', behaviorToJS (behavior c)),
              (str ''app'', appToJS (app c))]
           @ (case tests c of
                None \<Rightarrow> []
              | Some t \<Rightarrow> [(str ''tests'', JObj [(str ''hints'', JArr (testHints t))])]))"

definition sessionToJS :: "ElementContextV2 GrabrSession \<Rightarrow> jsvalue" where
  "sessionToJS session =
     JObj [(str ''id'', JStr (sessionId session)),
           (str ''createdAt'', JStr (createdAt session)),
           (str ''url'', JStr (sessionUrl session)),
           (str ''userInstruction'', optString (userInstruction session)),
           (str ''summary'', optString (summary session)),
           (str ''elements'', JArr (map contextToJS (elements session)))]"

section \<open>Prompt serializer (prompt.ts)\<close>

text \<open>\<open>Math.round\<close>: the nearest integer, a tie going up.\<close>

definition mathRound :: "jsnumber \<Rightarrow> jsnumber" where
  "mathRound n = (case n of Fin q \<Rightarrow> Fin (of_int \<lfloor>q + 1 / 2\<rfloor>) | NaN \<Rightarrow> NaN | PosInf \<Rightarrow> PosInf | NegInf \<Rightarrow> NegInf)"

text \<open>
  \<open>Number::toString\<close>. An integer below \<open>10^21\<close> in magnitude is written in decimal
  digits. For every other finite number the digits are those of ECMAScript's shortest
  round-trip notation, which is not modelled: \<open>fmt\<close> stands for it.
\<close>

definition numberToString :: "(rat \<Rightarrow> jsstring) \<Rightarrow> jsnumber \<Rightarrow> jsstring" where
  "numberToString fmt n =
     (case n of
        NaN \<Rightarrow> str ''NaN''
      | PosInf \<Rightarrow> str ''Infinity''
      | NegInf \<Rightarrow> str ''-Infinity''
      | Fin q \<Rightarrow>
          (if q = of_int \<lfloor>q\<rfloor> \<and> \<bar>q\<bar> < 10 ^ 21
           then (if q < 0 then str ''-'' else []) @ toString10 (nat \<bar>\<lfloor>q\<rfloor>\<bar>)
           else fmt q))"

text \<open>A number under \<open>JSON.stringify\<close>: NaN and the infinities are written \<open>null\<close>.\<close>

definition jsonNumber :: "(rat \<Rightarrow> jsstring) \<Rightarrow> jsnumber \<Rightarrow> jsstring" where
  "jsonNumber fmt n = (case n of Fin q \<Rightarrow> numberToString fmt n | NaN \<Rightarrow> str ''null'' | PosInf \<Rightarrow> str ''null'' | NegInf \<Rightarrow> str ''null'')"

text \<open>
  \<open>QuoteJSONString\<close>: the short escapes, \<open>\uXXXX\<close> for the other control characters and
  for surrogates that are not part of a pair, every other code unit as it is.
\<close>

definition hex4 :: "16 word \<Rightarrow> jsstring" where
  "hex4 c = [hexDigit (unat c div 4096), hexDigit (unat c div 256 mod 16),
             hexDigit (unat c div 16 mod 16), hexDigit (unat c mod 16)]"

definition unicodeEscape :: "16 word \<Rightarrow> jsstring" where
  "unicodeEscape c = [0x5C, 0x75] @ hex4 c"

fun quoteUnits :: "jsstring \<Rightarrow> jsstring" where
  "quoteUnits [] = []"
| "quoteUnits (c # cs) =
     (if c = 0x08 then [0x5C, 0x62] @ quoteUnits cs
      else if c = 0x09 then [0x5C, 0x74] @ quoteUnits cs
      else if c = 0x0A then [0x5C, 0x6E] @ quoteUnits cs
      else if c = 0x0C then [0x5C, 0x66] @ quoteUnits cs
      else if c = 0x0D then [0x5C, 0x72] @ quoteUnits cs
      else if c = 0x22 then [0x5C, 0x22] @ quoteUnits cs
      else if c = 0x5C then [0x5C, 0x5C] @ quoteUnits cs
      else if c < 0x20 then unicodeEscape c @ quoteUnits cs
      else if 0xD800 \<le> c \<and> c \<le> 0xDBFF then
        (case cs of
           [] \<Rightarrow> unicodeEscape c
         | d # ds \<Rightarrow>
             if 0xDC00 \<le> d \<and> d \<le> 0xDFFF then c # d # quoteUnits ds
             else unicodeEscape c @ quoteUnits cs)
      else if 0xDC00 \<le> c \<and> c \<le> 0xDFFF then unicodeEscape c @ quoteUnits cs
      else c # quoteUnits cs)"

definition quoteJSONString :: "jsstring \<Rightarrow> jsstring" where
  "quoteJSONString s = [0x22] @ quoteUnits s @ [0x22]"

text \<open>
  \<open>stringifyForPrompt\<close>: \<open>JSON.stringify\<close> with the replacer of the source, which turns
  \<open>undefined\<close> into \<open>undefined\<close> and, when \<open>dropNull\<close> is set, null into \<open>undefined\<close>. A
  property whose value is \<open>undefined\<close> is left out of an object and written \<open>null\<close> in an
  array; at the top, \<open>undefined\<close> makes the result \<open>undefined\<close> (\<open>None\<close>).
\<close>

fun stringifyForPrompt :: "(rat \<Rightarrow> jsstring) \<Rightarrow> jsvalue \<Rightarrow> bool \<Rightarrow> jsstring option" where
  "stringifyForPrompt fmt JUndefined dropNull = None"
| "stringifyForPrompt fmt JNull dropNull = (if dropNull then None else Some (str ''null''))"
| "stringifyForPrompt fmt (JBool b) dropNull = Some (if b then str ''true'' else str ''false'')"
| "stringifyForPrompt fmt (JNum n) dropNull = Some (jsonNumber fmt n)"
| "stringifyForPrompt fmt (JStr s) dropNull = Some (quoteJSONString s)"
| "stringifyForPrompt fmt (JArr xs) dropNull =
     Some (str ''['' @ joinWith (str '','')
             (map (\<lambda>x. case stringifyForPrompt fmt x dropNull of None \<Rightarrow> str ''null'' | Some t \<Rightarrow> t) xs)
           @ str '']'')"
| "stringifyForPrompt fmt (JObj kvs) dropNull =
     Some (str ''{'' @ joinWith (str '','')
             (concat (map (\<lambda>kv. case stringifyForPrompt fmt (snd kv) dropNull of
                                 None \<Rightarrow> []
                               | Some t \<Rightarrow> [quoteJSONString (fst kv) @ str '':'' @ t]) kvs))
           @ str ''}'')"

text \<open>
  The JSON encoding without a replacer, as ECMAScript defines it: a property whose value is
  \<open>undefined\<close> is omitted from an object, and null is written \<open>null\<close>.
\<close>

fun canonicalJSON :: "(rat \<Rightarrow> jsstring) \<Rightarrow> jsvalue \<Rightarrow> jsstring option" where
  "canonicalJSON fmt JUndefined = None"
| "canonicalJSON fmt JNull = Some (str ''null'')"
| "canonicalJSON fmt (JBool b) = Some (if b then str ''true'' else str ''false'')"
| "canonicalJSON fmt (JNum n) = Some (jsonNumber fmt n)"
| "canonicalJSON fmt (JStr s) = Some (quoteJSONString s)"
| "canonicalJSON fmt (JArr xs) =
     Some (str ''['' @ joinWith (str '','')
             (map (\<lambda>x. case canonicalJSON fmt x of None \<Rightarrow> str ''null'' | Some t \<Rightarrow> t) xs)
           @ str '']'')"
| "canonicalJSON fmt (JObj kvs) =
     Some (str ''{'' @ joinWith (str '','')
             (concat (map (\<lambda>kv. case canonicalJSON fmt (snd kv) of
                                 None \<Rightarrow> []
                               | Some t \<Rightarrow> [quoteJSONString (fst kv) @ str '':'' @ t]) kvs))
           @ str ''}'')"

text \<open>The value of a hexadecimal numeral, to say what \<open>toString16\<close> writes.\<close>

definition hexDigitValue :: "16 word \<Rightarrow> nat" where
  "hexDigitValue c = (if c < 0x3A then unat c - 48 else unat c - 87)"

definition hexValue :: "jsstring \<Rightarrow> nat" where
  "hexValue s = foldl (\<lambda>a c. 16 * a + hexDigitValue c) 0 s"

definition dq :: jsstring where
  "dq = [0x22]"

definition newline :: jsstring where
  "newline = [0x0A]"

text \<open>A string or \<open>undefined\<close> inside a template literal.\<close>

definition interpolate :: "jsstring option \<Rightarrow> jsstring" where
  "interpolate v = (case v of None \<Rightarrow> str ''undefined'' | Some s \<Rightarrow> s)"

text \<open>
  \<open>maybeAddLine\<close>, with the two options written out at every call and the array of lines
  as last argument, returned extended.
\<close>

definition maybeAddLine ::
  "(rat \<Rightarrow> jsstring) \<Rightarrow> jsstring \<Rightarrow> jsvalue \<Rightarrow> bool \<Rightarrow> bool \<Rightarrow> jsstring list \<Rightarrow> jsstring list" where
  "maybeAddLine fmt key v dropNull allowEmpty lines =
     (if (v = JNull \<or> v = JUndefined) \<and> dropNull then lines
      else
        (let serialized = stringifyForPrompt fmt v dropNull in
         if \<not> allowEmpty \<and> (serialized = Some (str ''{}'') \<or> serialized = Some (str ''[]''))
         then lines
         else lines @ [key @ str ''='' @ interpolate serialized]))"

definition formatSourceForPrompt :: "SourceLocation option \<Rightarrow> jsvalue" where
  "formatSourceForPrompt v =
     (case v of
        None \<Rightarrow> JNull
      | Some source \<Rightarrow>
          JObj ([(str ''file'', JStr (fileName source)),
                 (str ''confidence'', JStr (confidenceString (confidence source))),
                 (str ''origin'', JStr (originString (origin source)))]
                @ (case lineNumber source of None \<Rightarrow> [] | Some n \<Rightarrow> [(str ''line'', JNum n)])
                @ (case columnNumber source of None \<Rightarrow> [] | Some n \<Rightarrow> [(str ''col'', JNum n)])))"

definition orEmpty :: "jsstring option \<Rightarrow> jsstring" where
  "orEmpty v = (case v of None \<Rightarrow> [] | Some s \<Rightarrow> s)"

definition deriveSelectionId :: "(rat \<Rightarrow> jsstring) \<Rightarrow> ElementContextV2 \<Rightarrow> jsstring" where
  "deriveSelectionId fmt c =
     (let s = selection c;
          parts =
            [orEmpty (identityId (identity s)),
             orEmpty (identityDataTestId (identity s)),
             selectionTag s,
             orEmpty (componentDisplayName s),
             (case nearestSource s of None \<Rightarrow> [] | Some source \<Rightarrow> fileName source),
             numberToString fmt (mathRound (boxX (boundingBox s))),
             numberToString fmt (mathRound (boxY (boundingBox s)))]
      in str ''sel_'' @ promptChecksum (joinWith (str ''|'') parts))"

definition formatReactStack :: "ReactTreeSlice \<Rightarrow> jsvalue" where
  "formatReactStack r =
     JArr (map (\<lambda>idx.
                  JObj ([(str ''idx'', JNum (Fin (of_nat idx))),
                         (str ''displayName'',
                            JStr (case displayName (stack r ! idx) of
                                    None \<Rightarrow> str ''<host>'' | Some n \<Rightarrow> n)),
                         (str ''isHost'', JBool (isHost (stack r ! idx))),
                         (str ''source'', formatSourceForPrompt (frameSource (stack r ! idx))),
                         (str ''flags'', flagsToJS (flags (stack r ! idx)))]
                        @ (if ownerIndex r = Some (Fin (of_nat idx))
                           then [(str ''owner'', JBool True)] else [])))
             [0..<length (stack r)])"

definition formatPropsSnapshot :: "PropsSnapshot option \<Rightarrow> jsvalue" where
  "formatPropsSnapshot v =
     (case v of
        None \<Rightarrow> JNull
      | Some snapshot \<Rightarrow>
          JObj [(str ''total'', JNum (totalProps snapshot)),
                (str ''highlighted'',
                   JArr (map (\<lambda>h. JObj [(str ''name'', JStr (propName h)),
                                         (str ''reason'', JStr (reasonString (propReason h))),
                                         (str ''value'', propValue h)])
                          (highlighted snapshot)))])"

definition formatStateSnapshot :: "StateSnapshot option \<Rightarrow> jsvalue" where
  "formatStateSnapshot v =
     (case v of
        None \<Rightarrow> JNull
      | Some snapshot \<Rightarrow>
          JObj [(str ''total'', JNum (totalHooks snapshot)),
                (str ''entries'', JArr (map stateEntryToJS (stateEntries snapshot)))])"

definition formatContextSnapshot :: "ContextSnapshot option \<Rightarrow> jsvalue" where
  "formatContextSnapshot v =
     (case v of
        None \<Rightarrow> JNull
      | Some snapshot \<Rightarrow>
          JObj [(str ''total'', JNum (totalContexts snapshot)),
                (str ''entries'', JArr (map contextEntryToJS (contextEntries snapshot)))])"

definition formatBehaviorHandlers :: "EventHandlerInfo list \<Rightarrow> jsvalue" where
  "formatBehaviorHandlers hs =
     JArr (map (\<lambda>h.
                  JObj [(str ''prop'', JStr (handlerPropName h)),
                        (str ''kind'', JStr (eventKindString (inferredKind h))),
                        (str ''fn'', JStr (case functionName h of None \<Rightarrow> str ''anonymous'' | Some n \<Rightarrow> n)),
                        (str ''component'',
                           JStr (case declaredOnComponent h of None \<Rightarrow> str ''unknown'' | Some n \<Rightarrow> n)),
                        (str ''source'', formatSourceForPrompt (handlerSource h)),
                        (str ''inference'', JStr (inferenceSourceString (inferenceSource h)))])
             hs)"

text \<open>
  \<open>section(name, fn)\<close>: the opening marker, the lines \<open>fn\<close> adds, the closing marker. The
  body of a section is the list of its calls of \<open>maybeAddLine\<close>, applied in order.
\<close>

definition sectionLines ::
  "jsstring \<Rightarrow> (jsstring list \<Rightarrow> jsstring list) list \<Rightarrow> jsstring list \<Rightarrow> jsstring list" where
  "sectionLines name body lines =
     foldl (\<lambda>ls add. add ls) (lines @ [str ''[section:'' @ name @ str '']'']) body
       @ [str ''[end:'' @ name @ str '']'']"

definition fallbackDebugInfo :: ReactDebugInfo where
  "fallbackDebugInfo =
     \<lparr> buildType = BuildUnknown, inspectorStatus = InspectorNoHook,
       debugMessage = Some (str ''React debug info unavailable.'') \<rparr>"

definition selectionOpenLine :: "jsstring \<Rightarrow> jsstring \<Rightarrow> jsstring" where
  "selectionOpenLine selectionId checksum =
     str ''<ai_grab_selection v='' @ dq @ str ''2'' @ dq @ str '' sel_id='' @ dq @ selectionId @ dq
       @ str '' checksum='' @ dq @ checksum @ dq @ str ''>''"

definition selectionCloseLine :: "jsstring \<Rightarrow> jsstring \<Rightarrow> jsstring" where
  "selectionCloseLine selectionId checksum =
     str ''<ai_grab_selection_end sel_id='' @ dq @ selectionId @ dq
       @ str '' checksum='' @ dq @ checksum @ dq @ str ''/>''"

text \<open>
  The sections of a rendered element context, each as the function it is on the array of
  lines. \<open>debugInfoOf\<close> is \<open>context.reactDebug ?? { ... }\<close>.
\<close>

definition debugInfoOf :: "ElementContextV2 \<Rightarrow> ReactDebugInfo" where
  "debugInfoOf c = (case reactDebug c of None \<Rightarrow> fallbackDebugInfo | Some info \<Rightarrow> info)"

definition metaSection ::
  "(rat \<Rightarrow> jsstring) \<Rightarrow> ElementContextV2 \<Rightarrow> jsstring \<Rightarrow> jsstring \<Rightarrow> jsstring list \<Rightarrow> jsstring list" where
  "metaSection fmt c selectionId checksum =
     sectionLines (str ''meta'')
       [maybeAddLine fmt (str ''version'') (JNum (Fin 2)) False False,
        maybeAddLine fmt (str ''sel_id'') (JStr selectionId) False False,
        maybeAddLine fmt (str ''checksum'') (JStr checksum) False False,
        maybeAddLine fmt (str ''react_available'') (JBool (react c \<noteq> None)) True False,
        maybeAddLine fmt (str ''react_inspector_status'')
          (JStr (inspectorStatusString (inspectorStatus (debugInfoOf c)))) True False,
        maybeAddLine fmt (str ''react_build'')
          (JStr (buildTypeString (buildType (debugInfoOf c)))) True False,
        maybeAddLine fmt (str ''react_message'') (optString (debugMessage (debugInfoOf c))) True False,
        maybeAddLine fmt (str ''source_hint_present'')
          (JBool (nearestSource (selection c) \<noteq> None)) True False,
        maybeAddLine fmt (str ''tests_present'')
          (JBool (case tests c of None \<Rightarrow> False | Some t \<Rightarrow> length (testHints t) > 0)) True False]"

definition selectionSection ::
  "(rat \<Rightarrow> jsstring) \<Rightarrow> SelectionInfo \<Rightarrow> jsstring list \<Rightarrow> jsstring list" where
  "selectionSection fmt s =
     sectionLines (str ''selection'')
       [maybeAddLine fmt (str ''tag'') (JStr (selectionTag s)) False False,
        maybeAddLine fmt (str ''bounding_box'')
          (JObj [(str ''x'', JNum (mathRound (boxX (boundingBox s)))),
                 (str ''y'', JNum (mathRound (boxY (boundingBox s)))),
                 (str ''w'', JNum (mathRound (boxWidth (boundingBox s)))),
                 (str ''h'', JNum (mathRound (boxHeight (boundingBox s))))])
          False False,
        maybeAddLine fmt (str ''identity'')
          (JObj [(str ''id'', optString (identityId (identity s))),
                 (str ''dataTestId'', optString (identityDataTestId (identity s))),
                 (str ''role'', optString (identityRole (identity s))),
                 (str ''classes'', JArr (map JStr (identityClasses (identity s))))])
          False False,
        maybeAddLine fmt (str ''component'') (optString (componentDisplayName s)) True False,
        maybeAddLine fmt (str ''nearest_source'') (formatSourceForPrompt (nearestSource s)) True False,
        maybeAddLine fmt (str ''is_server_component'') (optBool (isLikelyServerComponent s)) True False]"

definition domSection ::
  "(rat \<Rightarrow> jsstring) \<Rightarrow> DomNeighborhood \<Rightarrow> jsstring list \<Rightarrow> jsstring list" where
  "domSection fmt n =
     sectionLines (str ''dom'')
       [maybeAddLine fmt (str ''snippet'') (JStr (snippet n)) False False,
        maybeAddLine fmt (str ''parents'') (domParents n) True False,
        maybeAddLine fmt (str ''siblings'') (domSiblings n) True False,
        maybeAddLine fmt (str ''children'') (domChildren n) True False,
        maybeAddLine fmt (str ''selectors'') (domSelectors n) True False]"

definition reactSection ::
  "(rat \<Rightarrow> jsstring) \<Rightarrow> ElementContextV2 \<Rightarrow> jsstring list \<Rightarrow> jsstring list" where
  "reactSection fmt c =
     sectionLines (str ''react'')
       (maybeAddLine fmt (str ''status'')
          (JObj [(str ''available'', JBool (react c \<noteq> None)),
                 (str ''inspectorStatus'', JStr (inspectorStatusString (inspectorStatus (debugInfoOf c)))),
                 (str ''build'', JStr (buildTypeString (buildType (debugInfoOf c)))),
                 (str ''message'', optString (debugMessage (debugInfoOf c)))])
          True False
        # (case react c of
             None \<Rightarrow> []
           | Some r \<Rightarrow>
               [maybeAddLine fmt (str ''owner_index'') (optNumber (ownerIndex r)) False False,
                maybeAddLine fmt (str ''stack'') (formatReactStack r) True True,
                maybeAddLine fmt (str ''owner_props'') (formatPropsSnapshot (ownerProps r)) True True,
                maybeAddLine fmt (str ''owner_state'') (formatStateSnapshot (ownerState r)) True True,
                maybeAddLine fmt (str ''owner_contexts'')
                  (formatContextSnapshot (ownerContexts r)) True True]))"

definition stylingSection ::
  "(rat \<Rightarrow> jsstring) \<Rightarrow> StyleFrame \<Rightarrow> jsstring list \<Rightarrow> jsstring list" where
  "stylingSection fmt style =
     sectionLines (str ''styling'')
       [maybeAddLine fmt (str ''layout'') (styleLayout style) True False,
        maybeAddLine fmt (str ''spacing'') (styleSpacing style) True False,
        maybeAddLine fmt (str ''size'') (styleSize style) True False,
        maybeAddLine fmt (str ''typography'') (styleTypography style) True False,
        maybeAddLine fmt (str ''colors'') (styleColors style) True False,
        maybeAddLine fmt (str ''clickable'') (JBool (clickable style)) False False]"

definition behaviorSection ::
  "(rat \<Rightarrow> jsstring) \<Rightarrow> BehaviorContext \<Rightarrow> jsstring list \<Rightarrow> jsstring list" where
  "behaviorSection fmt b =
     sectionLines (str ''behavior'')
       [maybeAddLine fmt (str ''inference_level'')
          (JStr (inferenceLevelString (inferenceLevel b))) False False,
        maybeAddLine fmt (str ''handlers'') (formatBehaviorHandlers (handlers b)) True True]"

definition appSection ::
  "(rat \<Rightarrow> jsstring) \<Rightarrow> AppContext \<Rightarrow> jsstring list \<Rightarrow> jsstring list" where
  "appSection fmt a =
     sectionLines (str ''app'')
       [maybeAddLine fmt (str ''url'')
          (JObj [(str ''full'', JStr (appUrl a)),
                 (str ''pathname'', JStr (appPathname a)),
                 (str ''search'', JStr (appSearch a)),
                 (str ''hash'', JStr (appHash a))])
          True False,
        maybeAddLine fmt (str ''routing'')
          (JObj [(str ''framework'', JStr (frameworkString (framework a))),
                 (str ''routePatternGuess'', optString (routePatternGuess a)),
                 (str ''routeParamsGuess'', routeParamsToJS (routeParamsGuess a)),
                 (str ''pageComponent'', formatSourceForPrompt (pageComponent a)),
                 (str ''layoutComponents'',
                    JArr (map (\<lambda>loc. formatSourceForPrompt (Some loc)) (layoutComponents a)))])
          True True,
        maybeAddLine fmt (str ''data_sources'') (JArr (map hintToJS (dataSources a))) True True]"

definition testsSection ::
  "(rat \<Rightarrow> jsstring) \<Rightarrow> TestsBlock option \<Rightarrow> jsstring list \<Rightarrow> jsstring list" where
  "testsSection fmt v lines =
     (case v of
        None \<Rightarrow> lines
      | Some t \<Rightarrow>
          sectionLines (str ''tests'')
            [maybeAddLine fmt (str ''hints'') (JArr (testHints t)) True True] lines)"

text \<open>
  The lines between the opening and the closing line of a rendered element context: the
  sections in the order of the source.
\<close>

definition selectionBody ::
  "(rat \<Rightarrow> jsstring) \<Rightarrow> ElementContextV2 \<Rightarrow> jsstring \<Rightarrow> jsstring \<Rightarrow> jsstring list \<Rightarrow> jsstring list" where
  "selectionBody fmt c selectionId checksum lines =
     testsSection fmt (tests c)
       (appSection fmt (app c)
          (behaviorSection fmt (behavior c)
             (stylingSection fmt (styling c)
                (reactSection fmt c
                   (domSection fmt (domNeighborhood c)
                      (selectionSection fmt (selection c)
                         (metaSection fmt c selectionId checksum lines)))))))"

text \<open>
  \<open>renderElementContextPrompt\<close>. \<open>promptChecksum\<close> reads the length of its argument, so
  the call throws when \<open>stringifyForPrompt\<close> gives \<open>undefined\<close>: the result is \<open>None\<close> then.
\<close>

definition renderElementContextPrompt ::
  "(rat \<Rightarrow> jsstring) \<Rightarrow> ElementContextV2 \<Rightarrow> jsstring option" where
  "renderElementContextPrompt fmt c =
     (case stringifyForPrompt fmt (contextToJS c) False of
        None \<Rightarrow> None
      | Some json \<Rightarrow>
          (let selectionId = deriveSelectionId fmt c;
               checksum = promptChecksum json
           in Some (joinWith newline
                      (selectionBody fmt c selectionId checksum [selectionOpenLine selectionId checksum]
                       @ [selectionCloseLine selectionId checksum]))))"

text \<open>The loop \<open>session.elements.forEach((ctx, idx) => ...)\<close> of the elements section.\<close>

fun renderElements ::
  "(rat \<Rightarrow> jsstring) \<Rightarrow> nat \<Rightarrow> ElementContextV2 list \<Rightarrow> jsstring list \<Rightarrow> jsstring list option" where
  "renderElements fmt idx [] lines = Some lines"
| "renderElements fmt idx (c # cs) lines =
     (case renderElementContextPrompt fmt c of
        None \<Rightarrow> None
      | Some rendered \<Rightarrow>
          renderElements fmt (idx + 1) cs
            (lines @ [str ''[element:'' @ toString10 idx @ str '']'', rendered,
                      str ''[end:element:'' @ toString10 idx @ str '']'']))"

definition sessionOpenLine :: "jsstring \<Rightarrow> jsstring \<Rightarrow> jsstring" where
  "sessionOpenLine ident checksum =
     str ''<ai_grab_session id='' @ dq @ ident @ dq @ str '' checksum='' @ dq @ checksum @ dq
       @ str ''>''"

definition sessionCloseLine :: "jsstring \<Rightarrow> jsstring \<Rightarrow> jsstring" where
  "sessionCloseLine ident checksum =
     str ''<ai_grab_session_end id='' @ dq @ ident @ dq @ str '' checksum='' @ dq @ checksum @ dq
       @ str ''/>''"

definition renderSessionPrompt ::
  "(rat \<Rightarrow> jsstring) \<Rightarrow> ElementContextV2 GrabrSession \<Rightarrow> jsstring option" where
  "renderSessionPrompt fmt session =
     (case stringifyForPrompt fmt (sessionToJS session) False of
        None \<Rightarrow> None
      | Some json \<Rightarrow>
          (let checksum = promptChecksum json;
               count = length (elements session);
               l1 = sectionLines (str ''meta'')
                      [maybeAddLine fmt (str ''created_at'') (JStr (createdAt session)) False False,
                       maybeAddLine fmt (str ''url'') (JStr (sessionUrl session)) False False,
                       maybeAddLine fmt (str ''instruction'')
                         (JStr (case userInstruction session of
                                  None \<Rightarrow> str ''(none)'' | Some i \<Rightarrow> i)) False False,
                       maybeAddLine fmt (str ''summary'')
                         (JStr (case summary session of
                                  None \<Rightarrow> str ''Session with '' @ toString10 count @ str '' elements.''
                                | Some t \<Rightarrow> t)) False False,
                       maybeAddLine fmt (str ''element_count'') (JNum (Fin (of_nat count))) False False]
                      [sessionOpenLine (sessionId session) checksum]
           in case renderElements fmt 0 (elements session) (l1 @ [str ''[section:elements]'']) of
                None \<Rightarrow> None
              | Some l2 \<Rightarrow>
                  Some (joinWith newline
                          (l2 @ [str ''[end:elements]'',
                                 sessionCloseLine (sessionId session) checksum]))))"

text \<open>A function on the array of lines that only pushes lines at its end.\<close>

definition appends :: "(jsstring list \<Rightarrow> jsstring list) \<Rightarrow> bool" where
  "appends f = (\<forall>a b. f (a @ b) = a @ f b)"

section \<open>Example inputs\<close>

text \<open>
  A slice whose only frame has its source in the given file, and the input of a framework
  strategy for that slice at the given path.
\<close>

definition sliceWithSource :: "jsstring \<Rightarrow> ReactTreeSlice" where
  "sliceWithSource file =
     \<lparr> stack =
         [\<lparr> displayName = Some (str ''Page''), isHost = False,
            frameSource =
              Some \<lparr> fileName = file, lineNumber = None, columnNumber = None,
                     confidence = ConfidenceHigh, origin = OriginBippy \<rparr>,
            flags =
              \<lparr> flagIsHost = False, flagIsComposite = True, isSuspenseBoundary = None,
                isErrorBoundary = None, isServerComponent = None, isLayoutLike = None \<rparr> \<rparr>],
       ownerIndex = None, ownerProps = None, ownerState = None, ownerContexts = None \<rparr>"

definition routeInput :: "jsstring \<Rightarrow> jsstring \<Rightarrow> FrameworkDetectionInput" where
  "routeInput file pathname =
     \<lparr> inReactSlice = Some (sliceWithSource file),
       inUrl = str ''http://localhost:3000'' @ pathname,
       inPathname = pathname \<rparr>"

text \<open>The framework tag, route pattern and route parameters of a detection result.\<close>

definition routeGuess ::
  "FrameworkDetectionResult option
     \<Rightarrow> (InferredFramework \<times> jsstring option \<times> (jsstring \<times> jsstring) list option) option" where
  "routeGuess r =
     map_option (\<lambda>res. (resFramework res, resRoutePatternGuess res, resRouteParamsGuess res)) r"

text \<open>The partial configuration \<open>{ maxReactStackFrames: v }\<close>.\<close>

definition framesOnly :: "jsvalue \<Rightarrow> PartialRuntimeConfig" where
  "framesOnly v =
     \<lparr> partialReactInspectorMode = JUndefined, partialMaxReactStackFrames = v,
       partialHeuristics = None \<rparr>"

text \<open>Owner props with the given names, and a slice that has them.\<close>

definition propsNamed :: "jsstring list \<Rightarrow> PropsSnapshot" where
  "propsNamed names =
     \<lparr> totalProps = Fin (of_nat (length names)),
       highlighted = map (\<lambda>n. \<lparr> propName = n, propValue = JNull, propReason = ReasonOther \<rparr>) names \<rparr>"

definition sliceWithProps :: "jsstring list \<Rightarrow> ReactTreeSlice" where
  "sliceWithProps names =
     \<lparr> stack = [], ownerIndex = None, ownerProps = Some (propsNamed names),
       ownerState = None, ownerContexts = None \<rparr>"

text \<open>A data-source strategy that never yields a hint.\<close>

definition silentStrategy :: DataSourceDetectionStrategy where
  "silentStrategy = \<lparr> dataSourceStrategyId = str ''silent'', detectDataSources = (\<lambda>input. []) \<rparr>"

text \<open>A world and a controller with no session, for the examples.\<close>

definition exampleWorld :: world where
  "exampleWorld =
     \<lparr> isoTime = str ''2024-01-01T00:00:00.000Z'', locationHref = str ''http://localhost:3000/'',
       freshSessionId = str ''session-1'' \<rparr>"

definition freshController :: "'ctx controller" where
  "freshController = \<lparr> currentSession = None, currentInstruction = None \<rparr>"

text \<open>
  A document of numbered elements, an overlay in the middle of a selection, and events
  that arrive while a finalize is in flight: among them the global hotkey twice, which
  cancels and then starts a new selection.
\<close>

definition exampleDom :: "nat dom" where
  "exampleDom =
     \<lparr> connected = (\<lambda>el. el \<noteq> 9), inOverlayRoot = (\<lambda>el. el = 0),
       parentElement = (\<lambda>el. if el = 0 then None else Some (el div 2)),
       hasBox = (\<lambda>el. True) \<rparr>"

definition selectingOverlay :: "nat overlay" where
  "selectingOverlay =
     \<lparr> selecting = True, sending = False, helpVisible = True, hoveredElement = Some 5,
       selectedElements = [4, 6, 4], selectionBoxes = [4, 6, 4], rafPending = False,
       rafReflowPending = True, listenersAttached = True, highlightShown = True,
       highlightLabelVisible = True, hudVisible = True, hudHelpVisible = True,
       hudStatus = HudSelectedMany 3 4, toastShown = None \<rparr>"

definition exampleEvents :: "nat event list" where
  "exampleEvents =
     [ProgressReported (BuildingContext 0 2), ReflowFrame, HotkeyDown, HotkeyDown,
      MouseMoved 7, Clicked 7 0 False, KeyPressed (str ''?''),
      ProgressReported (ErrorPhase 2 2 (str ''Failed to send context.'')),
      ToastRequested (str ''Failed to send context.'') True]"

section \<open>Properties\<close>

lemma toInt32_cong: "toInt32 x mod 2 ^ 32 = x mod 2 ^ 32"
proof -
  have "((x + 2 ^ 31) mod 2 ^ 32 - 2 ^ 31) mod 2 ^ 32 = ((x + 2 ^ 31) - 2 ^ 31) mod (2 ^ 32 :: int)"
    by (rule mod_diff_left_eq)
  then show ?thesis by (simp add: toInt32_def)
qed

lemma checksumStep_mod:
  "checksumStep h c mod 2 ^ 32 = (h * 31 + uint c) mod 2 ^ 32"
proof -
  have "checksumStep h c mod 2 ^ 32 = (toInt32 (h * 2 ^ 5) - h + uint c) mod 2 ^ 32"
    by (simp only: checksumStep_def toInt32_cong)
  also have "\<dots> = (toInt32 (h * 2 ^ 5) + (uint c - h)) mod 2 ^ 32"
    by (simp only: algebra_simps)
  also have "\<dots> = (toInt32 (h * 2 ^ 5) mod 2 ^ 32 + (uint c - h)) mod 2 ^ 32"
    by (simp only: mod_add_left_eq)
  also have "\<dots> = ((h * 2 ^ 5) mod 2 ^ 32 + (uint c - h)) mod 2 ^ 32"
    by (simp only: toInt32_cong)
  also have "\<dots> = (h * 2 ^ 5 + (uint c - h)) mod 2 ^ 32"
    by (simp only: mod_add_left_eq)
  also have "h * 2 ^ 5 + (uint c - h) = h * 31 + uint c"
    by simp
  finally show ?thesis .
qed


lemma int_rollStep:
  "int ((n * 31 + unat c) mod 2 ^ 32) = (int n * 31 + uint c) mod 2 ^ 32"
  by (simp add: zmod_int)

lemma foldl_checksumStep:
  "toUint32 (foldl checksumStep h s)
     = int (foldl (\<lambda>h c. (h * 31 + unat c) mod 2 ^ 32) (nat (toUint32 h)) s)"
proof (induction s arbitrary: h)
  case Nil
  show ?case by (simp add: toUint32_def)
next
  case (Cons c s)
  have "toUint32 (checksumStep h c) = (h * 31 + uint c) mod 2 ^ 32"
    unfolding toUint32_def by (rule checksumStep_mod)
  also have "\<dots> = ((h mod 2 ^ 32) * 31 + uint c) mod 2 ^ 32"
    by (metis mod_add_left_eq mod_mult_left_eq)
  also have "\<dots> = int ((nat (toUint32 h) * 31 + unat c) mod 2 ^ 32)"
    unfolding int_rollStep by (simp add: toUint32_def)
  finally have step: "nat (toUint32 (checksumStep h c)) = (nat (toUint32 h) * 31 + unat c) mod 2 ^ 32"
    by simp
  show ?case
    using Cons.IH [of "checksumStep h c"] by (simp add: step)
qed

lemma promptChecksum_rollingHash: "promptChecksum s = toString16 (rollingHash s)"
proof -
  have "toUint32 (foldl checksumStep 0 s) = int (rollingHash s)"
    using foldl_checksumStep [of 0 s] by (simp add: rollingHash_def toUint32_def)
  then show ?thesis by (simp add: promptChecksum_def)
qed

lemma dedupeLoop_eq:
  "dedupeLoop els seen out = out @ map (\<lambda>i. els ! i) (filter (\<lambda>i. els ! i \<notin> seen \<union> set (take i els)) [0..<length els])"
proof (induction els arbitrary: seen out)
  case Nil
  then show ?case by simp
next
  case (Cons el els)
  have upt: "[0..<length (el # els)] = 0 # map Suc [0..<length els]"
    by (simp add: upt_conv_Cons map_Suc_upt del: upt_Suc)
  show ?case
    by (simp only: upt) (auto simp add: Cons.IH filter_map comp_def intro!: arg_cong [where f = "map _"] filter_cong)
qed

lemma dedupe_first_occ: "dedupeElementsPreserveOrder els = map (\<lambda>i. els ! i) (filter (\<lambda>i. els ! i \<notin> set (take i els)) [0..<length els])"
  by (simp add: dedupeElementsPreserveOrder_def dedupeLoop_eq)

lemma dedupeLoop_set: "set (dedupeLoop els seen out) = set out \<union> (set els - seen)"
  by (induction els arbitrary: seen out) auto

lemma dedupeLoop_distinct: "distinct out \<Longrightarrow> set out \<subseteq> seen \<Longrightarrow> distinct (dedupeLoop els seen out)"
proof (induction els arbitrary: seen out)
  case Nil
  then show ?case by simp
next
  case (Cons el els)
  show ?case
  proof (cases "el \<in> seen")
    case True
    then show ?thesis using Cons by simp
  next
    case False
    have "distinct (out @ [el])" using Cons.prems False by auto
    moreover have "set (out @ [el]) \<subseteq> insert el seen" using Cons.prems by auto
    ultimately show ?thesis using Cons.IH False by simp
  qed
qed


lemma space_isWhiteSpace: "isWhiteSpace 0x20"
  by (simp add: isWhiteSpace_def)

lemma ellipsis_not_ws: "\<not> isWhiteSpace ellipsis"
  by (simp add: isWhiteSpace_def ellipsis_def)

lemma hd_dropWhile_ws: "dropWhile isWhiteSpace s \<noteq> [] \<Longrightarrow> \<not> isWhiteSpace (hd (dropWhile isWhiteSpace s))"
  using hd_dropWhile by blast

lemma trim_hd: "trim s \<noteq> [] \<Longrightarrow> \<not> isWhiteSpace (hd (trim s))"
proof -
  assume ne: "trim s \<noteq> []"
  let ?d = "dropWhile isWhiteSpace s"
  have dne: "?d \<noteq> []" using ne by (cases "?d = []") (simp_all add: trim_def)
  obtain x xs where d: "?d = x # xs" using dne by (cases ?d) auto
  have nx: "\<not> isWhiteSpace x" using hd_dropWhile_ws [OF dne] d by simp
  have "\<exists>ys. dropWhile isWhiteSpace (rev xs @ [x]) = ys @ [x]"
    using nx by (induction "rev xs" arbitrary: xs) (auto simp: dropWhile_append)
  then obtain ys where "dropWhile isWhiteSpace (rev ?d) = ys @ [x]" using d by auto
  then have "trim s = x # rev ys" by (simp add: trim_def)
  then show ?thesis using nx by simp
qed

lemma trim_last: "trim s \<noteq> [] \<Longrightarrow> \<not> isWhiteSpace (last (trim s))"
proof -
  assume ne: "trim s \<noteq> []"
  let ?r = "dropWhile isWhiteSpace (rev (dropWhile isWhiteSpace s))"
  have "?r \<noteq> []" using ne by (simp add: trim_def)
  then have "\<not> isWhiteSpace (hd ?r)" by (rule hd_dropWhile_ws)
  moreover have "last (trim s) = hd ?r" using \<open>?r \<noteq> []\<close> by (simp add: trim_def last_rev)
  ultimately show ?thesis by simp
qed

lemma rwr_Nil_iff: "replaceWhitespaceRuns s = [] \<longleftrightarrow> s = []"
  by (cases s) auto

lemma rwr_all: "list_all (\<lambda>c. isWhiteSpace c \<longrightarrow> c = 0x20) (replaceWhitespaceRuns s)"
  by (induction s rule: replaceWhitespaceRuns.induct) auto

lemma rwr_hd: "s \<noteq> [] \<Longrightarrow> \<not> isWhiteSpace (hd s) \<Longrightarrow> \<not> isWhiteSpace (hd (replaceWhitespaceRuns s))"
  by (cases s) auto

lemma rwr_last: "s \<noteq> [] \<Longrightarrow> \<not> isWhiteSpace (last s) \<Longrightarrow> \<not> isWhiteSpace (last (replaceWhitespaceRuns s))"
proof (induction s rule: replaceWhitespaceRuns.induct)
  case 1
  then show ?case by simp
next
  case (2 c cs)
  show ?case
  proof (cases "isWhiteSpace c")
    case True
    let ?d = "dropWhile isWhiteSpace cs"
    have csne: "cs \<noteq> []" using 2(3,4) True by auto
    have "last cs \<in> set cs" using csne by simp
    then have "\<not> (\<forall>x\<in>set cs. isWhiteSpace x)" using 2(4) csne by auto
    then have dne: "?d \<noteq> []" by (simp add: dropWhile_eq_Nil_conv)
    have "last ?d = last (c # cs)"
      using dne csne by (metis last_ConsR last_appendR takeWhile_dropWhile_id)
    then have "\<not> isWhiteSpace (last (replaceWhitespaceRuns ?d))"
      using 2(1) [OF True dne] 2(4) by simp
    moreover have "replaceWhitespaceRuns ?d \<noteq> []" using dne by (simp only: rwr_Nil_iff not_False_eq_True)
    ultimately show ?thesis using True by (simp del: dropWhile_eq_Nil_conv)
  next
    case False
    show ?thesis
    proof (cases "cs = []")
      case True
      then show ?thesis using False by simp
    next
      case ne: False
      then have "\<not> isWhiteSpace (last (replaceWhitespaceRuns cs))"
        using 2(2) [OF False ne] 2(4) by simp
      then show ?thesis using False ne by (simp add: rwr_Nil_iff)
    qed
  qed
qed

lemma rwr_noAdjacent: "noAdjacentWhitespace (replaceWhitespaceRuns s)"
proof (induction s rule: replaceWhitespaceRuns.induct)
  case 1
  then show ?case by simp
next
  case (2 c cs)
  show ?case
  proof (cases "isWhiteSpace c")
    case True
    let ?d = "dropWhile isWhiteSpace cs"
    show ?thesis
    proof (cases ?d)
      case Nil
      then have "replaceWhitespaceRuns (c # cs) = [0x20]"
        using True by (simp del: dropWhile_eq_Nil_conv)
      then show ?thesis by simp
    next
      case (Cons x xs)
      then have nx: "\<not> isWhiteSpace x" using hd_dropWhile_ws [of cs] by simp
      have "noAdjacentWhitespace (replaceWhitespaceRuns ?d)" using 2(1) True by simp
      then show ?thesis using True Cons nx by simp
    qed
  next
    case False
    have ih: "noAdjacentWhitespace (replaceWhitespaceRuns cs)" using 2(2) False by simp
    show ?thesis
    proof (cases "replaceWhitespaceRuns cs")
      case Nil
      then show ?thesis using False by simp
    next
      case (Cons x xs)
      then show ?thesis using False ih by simp
    qed
  qed
qed

lemma noAdjacent_take: "noAdjacentWhitespace r \<Longrightarrow> noAdjacentWhitespace (take n r)"
proof (induction r arbitrary: n)
  case Nil
  then show ?case by simp
next
  case (Cons a r)
  show ?case
  proof (cases n)
    case 0
    then show ?thesis by simp
  next
    case n: (Suc m)
    show ?thesis
    proof (cases r)
      case Nil
      then show ?thesis using n by simp
    next
      case r: (Cons b cs)
      have tl: "noAdjacentWhitespace (take m (b # cs))"
        using Cons.IH [of m] Cons.prems r by simp
      show ?thesis
      proof (cases m)
        case 0
        then show ?thesis using n r by simp
      next
        case (Suc k)
        then show ?thesis using n r tl Cons.prems by simp
      qed
    qed
  qed
qed

lemma noAdjacent_snoc: "noAdjacentWhitespace r \<Longrightarrow> \<not> isWhiteSpace e \<Longrightarrow> noAdjacentWhitespace (r @ [e])"
  by (induction r rule: noAdjacentWhitespace.induct) auto

lemma collapsed_base: "whitespaceCollapsed (replaceWhitespaceRuns (trim s))"
  unfolding whitespaceCollapsed_def
  using rwr_all rwr_noAdjacent rwr_hd [OF _ trim_hd] rwr_last [OF _ trim_last]
  by (auto simp: rwr_Nil_iff)

lemma collapsed_cut:
  assumes "whitespaceCollapsed r"
  shows "whitespaceCollapsed (take n r @ [ellipsis])"
proof -
  have a: "list_all (\<lambda>c. isWhiteSpace c \<longrightarrow> c = 0x20) (take n r @ [ellipsis])"
    using assms ellipsis_not_ws by (auto simp: whitespaceCollapsed_def list_all_iff dest: in_set_takeD)
  have b: "noAdjacentWhitespace (take n r @ [ellipsis])"
    using assms ellipsis_not_ws by (simp add: whitespaceCollapsed_def noAdjacent_take noAdjacent_snoc)
  have c: "\<not> isWhiteSpace (hd (take n r @ [ellipsis]))"
  proof (cases "take n r = []")
    case True
    then show ?thesis using ellipsis_not_ws by (simp add: hd_append del: take_eq_Nil)
  next
    case False
    then have "r \<noteq> []" "hd (take n r) = hd r" by (cases r; cases n; auto)+
    then show ?thesis using assms False by (simp add: whitespaceCollapsed_def hd_append del: take_eq_Nil)
  qed
  show ?thesis unfolding whitespaceCollapsed_def using a b c ellipsis_not_ws by simp
qed

lemma truncateText_collapsed: "whitespaceCollapsed (truncateText s L)"
  by (simp add: truncateText_def Let_def slice0_def collapsed_base collapsed_cut)

lemma truncateText_length: "0 \<le> L \<Longrightarrow> int (length (truncateText s L)) \<le> L + 1"
  by (auto simp: truncateText_def Let_def slice0_def)

text \<open>
  C9 as stated fails: a text of 81 letters gives a snippet of 81 characters, the first 80
  letters followed by the ellipsis, which exceeds the limit of 80.
\<close>

theorem truncateText_exceeds_limit:
  "length (truncateText (replicate 81 0x61) 80) = 81
   \<and> map_option length (summarizeTextContent (Some (replicate 81 0x61))) = Some 81"
  by code_simp

text \<open>
  C9, amended: \<open>truncateText s L\<close> is whitespace-collapsed for every \<open>s\<close> and
  \<open>L\<close>, and for \<open>L \<ge> 0\<close> it has at most \<open>L + 1\<close> characters (at most \<open>L\<close>
  characters of the collapsed text, then the ellipsis when the text was cut). The text snippet
  of an element is therefore whitespace-collapsed and at most 81 characters long.
\<close>

theorem truncateText_collapsed_bounded:
  "whitespaceCollapsed (truncateText s L)
   \<and> (0 \<le> L \<longrightarrow> int (length (truncateText s L)) \<le> L + 1)
   \<and> (summarizeTextContent t = Some r \<longrightarrow> whitespaceCollapsed r \<and> length r \<le> 81)"
proof -
  have "whitespaceCollapsed r \<and> length r \<le> 81" if h: "summarizeTextContent t = Some r"
  proof -
    obtain content where r: "r = truncateText content MAX_TEXT_SNIPPET"
      using h by (auto simp: summarizeTextContent_def Let_def split: option.splits if_splits)
    have "int (length r) \<le> 80 + 1"
      unfolding r MAX_TEXT_SNIPPET_def by (rule truncateText_length) simp
    then show ?thesis using r truncateText_collapsed by simp
  qed
  then show ?thesis using truncateText_collapsed truncateText_length by blast
qed

theorem truncateText_collapsed_bounded_witness:
  "(0::int) \<le> 4
   \<and> truncateText (str ''  ab   cd  e '') 4 = str ''ab c'' @ [ellipsis]
   \<and> whitespaceCollapsed (str ''ab c'' @ [ellipsis])
   \<and> int (length (str ''ab c'' @ [ellipsis])) \<le> 4 + 1
   \<and> summarizeTextContent (Some (str '' a  b '')) = Some (str ''a b'')
   \<and> whitespaceCollapsed (str ''a b'') \<and> length (str ''a b'') \<le> 81"
proof -
  have t: "truncateText (str ''  ab   cd  e '') 4 = str ''ab c'' @ [ellipsis]"
    by (simp add: truncateText_def Let_def slice0_def trim_def isWhiteSpace_def str_def)
  have u: "summarizeTextContent (Some (str '' a  b '')) = Some (str ''a b'')"
    by (simp add: summarizeTextContent_def MAX_TEXT_SNIPPET_def truncateText_def Let_def
        slice0_def trim_def isWhiteSpace_def str_def)
  show ?thesis
    using truncateText_collapsed_bounded [of "str ''  ab   cd  e ''" 4 "Some (str '' a  b '')" "str ''a b''"]
    by (simp add: t u)
qed

text \<open>
  C3 as stated fails: under the app-router tag the path \<open>/users/editProfile\<close> is not kept
  verbatim. The segment \<open>editProfile\<close> differs from its lower-cased form, so it is replaced
  by the placeholder \<open>[param1]\<close> and recorded in the params guess.
\<close>

theorem routePattern_editProfile_not_verbatim:
  "routeGuess (nextLikeDetect (routeInput (str ''/src/app/users/page.tsx'') (str ''/users/editProfile'')))
     = Some (NextApp, Some (str ''/users/[param1]''), Some [(str ''param1'', str ''editProfile'')])
   \<and> str ''/users/[param1]'' \<noteq> str ''/users/editProfile''"
  by code_simp

text \<open>
  C3, amended: with a path-based framework tag active (\<open>next-app\<close> from a source under
  \<open>/app/\<close>, \<open>next-pages\<close> from one under \<open>/pages/\<close>), the next-like strategy maps the
  path \<open>/users/editprofile\<close> to the pattern \<open>/users/editprofile\<close> with no params guess
  (a segment of more than two characters that equals its lower-cased form is kept
  verbatim), maps \<open>/users/editProfile\<close> to \<open>/users/[param1]\<close> with the params guess
  \<open>{param1: "editProfile"}\<close>, and maps \<open>/users/EditProfile\<close> to \<open>/users/[param1]\<close> with
  \<open>{param1: "EditProfile"}\<close>. Purely numeric segments are left out of the statement.
\<close>

theorem routePattern_guess:
  "routeGuess (nextLikeDetect (routeInput (str ''/src/app/users/page.tsx'') (str ''/users/editprofile'')))
     = Some (NextApp, Some (str ''/users/editprofile''), None)
   \<and> routeGuess (nextLikeDetect (routeInput (str ''/src/pages/users/index.tsx'') (str ''/users/editprofile'')))
     = Some (NextPages, Some (str ''/users/editprofile''), None)
   \<and> routeGuess (nextLikeDetect (routeInput (str ''/src/app/users/page.tsx'') (str ''/users/editProfile'')))
     = Some (NextApp, Some (str ''/users/[param1]''), Some [(str ''param1'', str ''editProfile'')])
   \<and> routeGuess (nextLikeDetect (routeInput (str ''/src/pages/users/index.tsx'') (str ''/users/editProfile'')))
     = Some (NextPages, Some (str ''/users/[param1]''), Some [(str ''param1'', str ''editProfile'')])
   \<and> routeGuess (nextLikeDetect (routeInput (str ''/src/app/users/page.tsx'') (str ''/users/EditProfile'')))
     = Some (NextApp, Some (str ''/users/[param1]''), Some [(str ''param1'', str ''EditProfile'')])
   \<and> routeGuess (nextLikeDetect (routeInput (str ''/src/pages/users/index.tsx'') (str ''/users/EditProfile'')))
     = Some (NextPages, Some (str ''/users/[param1]''), Some [(str ''param1'', str ''EditProfile'')])"
  by code_simp

text \<open>
  What the code does on a numeric segment: \<open>42\<close> does not match the regular expression
  (which asks for a backslash and letters \<open>d\<close>) and has only two characters, so it becomes
  \<open>[param1]\<close> and not \<open>[id1]\<close>.
\<close>

lemma routePattern_numeric_segment:
  "routeGuess (nextLikeDetect (routeInput (str ''/src/app/users/page.tsx'') (str ''/users/42/edit'')))
     = Some (NextApp, Some (str ''/users/[param1]/edit''), Some [(str ''param1'', str ''42'')])"
  by code_simp

lemma range_iff: "isFiniteIntegerInRange v 1 64 \<longleftrightarrow> (\<exists>n::int. 1 \<le> n \<and> n \<le> 64 \<and> v = JNum (Fin (of_int n)))"
proof (cases v)
  case (JNum x)
  then show ?thesis
  proof (cases x)
    case (Fin q)
    show ?thesis
    proof
      assume "isFiniteIntegerInRange v 1 64"
      then have q: "q \<in> \<int>" "1 \<le> q" "q \<le> 64" using JNum Fin by auto
      then obtain n :: int where n: "q = of_int n" by (auto elim: Ints_cases)
      then have "1 \<le> n \<and> n \<le> 64" using q by simp
      then show "\<exists>n::int. 1 \<le> n \<and> n \<le> 64 \<and> v = JNum (Fin (of_int n))"
        using n JNum Fin by auto
    next
      assume "\<exists>n::int. 1 \<le> n \<and> n \<le> 64 \<and> v = JNum (Fin (of_int n))"
      then show "isFiniteIntegerInRange v 1 64" by auto
    qed
  qed auto
qed auto

lemma validate_iff:
  "validateRuntimeConfigOrThrow config = Inr () \<longleftrightarrow>
     (reactInspectorMode config \<in> {JStr (str ''best-effort''), JStr (str ''required''), JStr (str ''off'')}
      \<and> (\<exists>n::int. 1 \<le> n \<and> n \<le> 64 \<and> maxReactStackFrames config = JNum (Fin (of_int n))))"
  unfolding range_iff [symmetric] by (auto simp: validateRuntimeConfigOrThrow_def)

lemma validate_error:
  "validateRuntimeConfigOrThrow config = Inr ()
   \<or> validateRuntimeConfigOrThrow config = Inl (InvalidReactInspectorMode (reactInspectorMode config))
   \<or> validateRuntimeConfigOrThrow config = Inl (InvalidMaxReactStackFrames (maxReactStackFrames config))"
  by (simp add: validateRuntimeConfigOrThrow_def)

lemma setup_frames:
  "createGrabrClient True (ArgConfig (framesOnly (JNum (Fin q)))) =
     (if q \<in> \<int> \<and> 1 \<le> q \<and> q \<le> 64 then Inr (defaultRuntimeConfig \<lparr> maxReactStackFrames := JNum (Fin q) \<rparr>)
      else Inl (InvalidMaxReactStackFrames (JNum (Fin q))))"
  by (simp add: createGrabrClient_def framesOnly_def mergeRuntimeConfig_def nullish_def
      validateRuntimeConfigOrThrow_def defaultRuntimeConfig_def str_def)

text \<open>
  C6: \<open>validateRuntimeConfigOrThrow\<close> accepts a configuration exactly when its inspector mode
  is one of the strings \<open>best-effort\<close>, \<open>required\<close>, \<open>off\<close> and its frame count is a number
  with an integer value from 1 to 64; every other configuration is refused with a
  configuration error that carries the refused value. At setup, \<open>createGrabrClient\<close> refuses
  \<open>maxReactStackFrames\<close> 0 and 65 with that error and accepts 1 and 64.
\<close>

theorem config_validation:
  "(validateRuntimeConfigOrThrow config = Inr () \<longleftrightarrow>
      reactInspectorMode config \<in> {JStr (str ''best-effort''), JStr (str ''required''), JStr (str ''off'')}
      \<and> (\<exists>n::int. 1 \<le> n \<and> n \<le> 64 \<and> maxReactStackFrames config = JNum (Fin (of_int n))))
   \<and> (validateRuntimeConfigOrThrow config = Inr ()
      \<or> validateRuntimeConfigOrThrow config = Inl (InvalidReactInspectorMode (reactInspectorMode config))
      \<or> validateRuntimeConfigOrThrow config = Inl (InvalidMaxReactStackFrames (maxReactStackFrames config)))
   \<and> createGrabrClient True (ArgConfig (framesOnly (JNum (Fin 0))))
       = Inl (InvalidMaxReactStackFrames (JNum (Fin 0)))
   \<and> createGrabrClient True (ArgConfig (framesOnly (JNum (Fin 65))))
       = Inl (InvalidMaxReactStackFrames (JNum (Fin 65)))
   \<and> createGrabrClient True (ArgConfig (framesOnly (JNum (Fin 1))))
       = Inr (defaultRuntimeConfig \<lparr> maxReactStackFrames := JNum (Fin 1) \<rparr>)
   \<and> createGrabrClient True (ArgConfig (framesOnly (JNum (Fin 64))))
       = Inr (defaultRuntimeConfig \<lparr> maxReactStackFrames := JNum (Fin 64) \<rparr>)"
  using validate_iff [of config] validate_error [of config]
  by (simp add: setup_frames)


lemma hints_reactQuery:
  "str ''data'' \<in> set names \<Longrightarrow> str ''isloading'' \<in> set names \<or> str ''loading'' \<in> set names \<Longrightarrow> str ''error'' \<in> set names
    \<Longrightarrow> KindReactQuery \<in> hintKind ` set (hintsFromLowerNames names)"
  by (auto simp: hintsFromLowerNames_def Let_def)

lemma hints_swr:
  "\<exists>n\<in>set names. includesStr n (str ''swr'') \<Longrightarrow> KindSwr \<in> hintKind ` set (hintsFromLowerNames names)"
  by (auto simp: hintsFromLowerNames_def Let_def list_ex_iff)

lemma hints_redux:
  "\<exists>n\<in>set names. includesStr n (str ''selector'') \<Longrightarrow> KindRedux \<in> hintKind ` set (hintsFromLowerNames names)"
  by (auto simp: hintsFromLowerNames_def Let_def list_ex_iff)

lemma hints_nonempty: "hintsFromLowerNames names \<noteq> []"
  by (auto simp: hintsFromLowerNames_def Let_def)

lemma hints_unknown:
  "\<not> (str ''data'' \<in> set names \<and> (str ''isloading'' \<in> set names \<or> str ''loading'' \<in> set names) \<and> str ''error'' \<in> set names)
   \<Longrightarrow> \<not> (\<exists>n\<in>set names. includesStr n (str ''swr'')) \<Longrightarrow> \<not> (\<exists>n\<in>set names. includesStr n (str ''selector''))
   \<Longrightarrow> hintsFromLowerNames names = [unknownHint]"
  by (auto simp: hintsFromLowerNames_def Let_def list_ex_iff)

lemma collect_nonempty: "collectDataSources strategies input \<noteq> []"
  by (simp add: collectDataSources_def Let_def)

lemma collect_unknown:
  "\<forall>s\<in>set strategies. detectDataSources s input = [] \<Longrightarrow> collectDataSources strategies input = [unknownHint]"
  by (simp add: collectDataSources_def Let_def)

lemma buildAppContext_dataSources:
  "dataSources (buildAppContext loc reactSlice config) =
     collectDataSources (dataSourceStrategies (heuristics config)) \<lparr> inOwnerProps = Option.bind reactSlice ownerProps \<rparr>"
  by (simp add: buildAppContext_def Let_def)

lemma dataSource_example_names:
  "lowerNamesOf \<lparr> inOwnerProps = Some (propsNamed [str ''data'', str ''isLoading'', str ''error'', str ''swrKey'', str ''userSelector'']) \<rparr>
     = [str ''data'', str ''isloading'', str ''error'', str ''swrkey'', str ''userselector'']
   \<and> lowerNamesOf \<lparr> inOwnerProps = Some (propsNamed [str ''title'']) \<rparr> = [str ''title'']"
  by code_simp

lemma dataSource_example_includes:
  "includesStr (str ''swrkey'') (str ''swr'') \<and> includesStr (str ''userselector'') (str ''selector'')
   \<and> \<not> includesStr (str ''title'') (str ''swr'') \<and> \<not> includesStr (str ''title'') (str ''selector'')"
  by code_simp

text \<open>
  C7: for the bundled strategy, with the owner's prop names lower-cased: the names
  \<open>data\<close>, \<open>isloading\<close> or \<open>loading\<close>, and \<open>error\<close> together give a hint of kind
  react-query; a name that contains \<open>swr\<close> gives a hint of kind swr; a name that contains
  \<open>selector\<close> gives a hint of kind redux; when none of the three applies the strategy
  returns exactly the unknown hint. The data sources of an app context are never empty, and
  they are exactly the unknown hint when no strategy of the configuration yields a hint.
\<close>

theorem dataSource_detection:
  "(str ''data'' \<in> set (lowerNamesOf input)
      \<and> (str ''isloading'' \<in> set (lowerNamesOf input) \<or> str ''loading'' \<in> set (lowerNamesOf input))
      \<and> str ''error'' \<in> set (lowerNamesOf input)
      \<longrightarrow> KindReactQuery \<in> hintKind ` set (basicDataSourceDetect input))
   \<and> ((\<exists>n\<in>set (lowerNamesOf input). includesStr n (str ''swr''))
      \<longrightarrow> KindSwr \<in> hintKind ` set (basicDataSourceDetect input))
   \<and> ((\<exists>n\<in>set (lowerNamesOf input). includesStr n (str ''selector''))
      \<longrightarrow> KindRedux \<in> hintKind ` set (basicDataSourceDetect input))
   \<and> (\<not> (str ''data'' \<in> set (lowerNamesOf input)
          \<and> (str ''isloading'' \<in> set (lowerNamesOf input) \<or> str ''loading'' \<in> set (lowerNamesOf input))
          \<and> str ''error'' \<in> set (lowerNamesOf input))
      \<and> \<not> (\<exists>n\<in>set (lowerNamesOf input). includesStr n (str ''swr''))
      \<and> \<not> (\<exists>n\<in>set (lowerNamesOf input). includesStr n (str ''selector''))
      \<longrightarrow> basicDataSourceDetect input = [unknownHint])
   \<and> basicDataSourceDetect input \<noteq> []
   \<and> dataSources (buildAppContext loc reactSlice config) \<noteq> []
   \<and> ((\<forall>s\<in>set (dataSourceStrategies (heuristics config)).
          detectDataSources s \<lparr> inOwnerProps = Option.bind reactSlice ownerProps \<rparr> = [])
      \<longrightarrow> dataSources (buildAppContext loc reactSlice config) = [unknownHint])"
  unfolding basicDataSourceDetect_def buildAppContext_dataSources
  using hints_reactQuery [of "lowerNamesOf input"] hints_swr [of "lowerNamesOf input"]
    hints_redux [of "lowerNamesOf input"] hints_unknown [of "lowerNamesOf input"]
    hints_nonempty collect_nonempty collect_unknown
  by blast

theorem dataSource_detection_witness:
  "str ''data'' \<in> set (lowerNamesOf \<lparr> inOwnerProps = Some (propsNamed [str ''data'', str ''isLoading'', str ''error'', str ''swrKey'', str ''userSelector'']) \<rparr>)
   \<and> str ''isloading'' \<in> set (lowerNamesOf \<lparr> inOwnerProps = Some (propsNamed [str ''data'', str ''isLoading'', str ''error'', str ''swrKey'', str ''userSelector'']) \<rparr>)
   \<and> str ''error'' \<in> set (lowerNamesOf \<lparr> inOwnerProps = Some (propsNamed [str ''data'', str ''isLoading'', str ''error'', str ''swrKey'', str ''userSelector'']) \<rparr>)
   \<and> includesStr (str ''swrkey'') (str ''swr'') \<and> includesStr (str ''userselector'') (str ''selector'')
   \<and> KindReactQuery \<in> hintKind ` set (basicDataSourceDetect \<lparr> inOwnerProps = Some (propsNamed [str ''data'', str ''isLoading'', str ''error'', str ''swrKey'', str ''userSelector'']) \<rparr>)
   \<and> KindSwr \<in> hintKind ` set (basicDataSourceDetect \<lparr> inOwnerProps = Some (propsNamed [str ''data'', str ''isLoading'', str ''error'', str ''swrKey'', str ''userSelector'']) \<rparr>)
   \<and> KindRedux \<in> hintKind ` set (basicDataSourceDetect \<lparr> inOwnerProps = Some (propsNamed [str ''data'', str ''isLoading'', str ''error'', str ''swrKey'', str ''userSelector'']) \<rparr>)
   \<and> basicDataSourceDetect \<lparr> inOwnerProps = Some (propsNamed [str ''title'']) \<rparr> = [unknownHint]
   \<and> detectDataSources silentStrategy \<lparr> inOwnerProps = None \<rparr> = []
   \<and> dataSources (buildAppContext None None
         (defaultRuntimeConfig \<lparr> heuristics := \<lparr> frameworkStrategies = [], dataSourceStrategies = [silentStrategy] \<rparr> \<rparr>))
       = [unknownHint]"
proof -
  let ?full = "\<lparr> inOwnerProps = Some (propsNamed [str ''data'', str ''isLoading'', str ''error'', str ''swrKey'', str ''userSelector'']) \<rparr>"
  let ?plain = "\<lparr> inOwnerProps = Some (propsNamed [str ''title'']) \<rparr>"
  let ?cfg = "defaultRuntimeConfig \<lparr> heuristics := \<lparr> frameworkStrategies = [], dataSourceStrategies = [silentStrategy] \<rparr> \<rparr>"
  have names: "lowerNamesOf ?full = [str ''data'', str ''isloading'', str ''error'', str ''swrkey'', str ''userselector'']"
    "lowerNamesOf ?plain = [str ''title'']"
    using dataSource_example_names by simp_all
  have distinct_names: "str ''title'' \<noteq> str ''data''" "str ''title'' \<noteq> str ''swrkey''"
    by (simp_all add: str_def)
  have silent: "detectDataSources silentStrategy \<lparr> inOwnerProps = None \<rparr> = []"
    by (simp add: silentStrategy_def)
  have a: "str ''data'' \<in> set (lowerNamesOf ?full)" "str ''isloading'' \<in> set (lowerNamesOf ?full)"
    "str ''error'' \<in> set (lowerNamesOf ?full)"
    by (simp_all add: names)
  have b: "\<exists>n\<in>set (lowerNamesOf ?full). includesStr n (str ''swr'')"
    "\<exists>n\<in>set (lowerNamesOf ?full). includesStr n (str ''selector'')"
    using dataSource_example_includes by (simp_all add: names)
  have c: "\<not> (str ''data'' \<in> set (lowerNamesOf ?plain)
          \<and> (str ''isloading'' \<in> set (lowerNamesOf ?plain) \<or> str ''loading'' \<in> set (lowerNamesOf ?plain))
          \<and> str ''error'' \<in> set (lowerNamesOf ?plain))"
    "\<not> (\<exists>n\<in>set (lowerNamesOf ?plain). includesStr n (str ''swr''))"
    "\<not> (\<exists>n\<in>set (lowerNamesOf ?plain). includesStr n (str ''selector''))"
    using dataSource_example_includes distinct_names by (simp_all add: names)
  have d: "\<forall>s\<in>set (dataSourceStrategies (heuristics ?cfg)).
          detectDataSources s \<lparr> inOwnerProps = Option.bind None ownerProps \<rparr> = []"
    by (simp add: silent)
  show ?thesis
    using dataSource_detection [of ?full None None ?cfg] dataSource_detection [of ?plain None None ?cfg]
      a b c d dataSource_example_includes silent
    by blast
qed

lemma start_state:
  "k \<le> n \<Longrightarrow>
     (startWorker n ^^ k) \<lparr> nextIndex = 0, results = rs, workers = [], rejection = None, shared = s0 \<rparr>
       = \<lparr> nextIndex = k, results = rs, workers = map Awaiting [0..<k], rejection = None, shared = s0 \<rparr>"
proof (induction k)
  case 0
  then show ?case by simp
next
  case (Suc k)
  have upd: "(map Awaiting [0..<k] @ [Finished])[k := x] = map Awaiting [0..<k] @ [x]" for x
    using list_update_length [of "map Awaiting [0..<k]" Finished "[]" x] by simp
  from Suc show ?case
    by (simp add: startWorker_def runWorkerLoop_def upd)
qed

lemma start_inv:
  assumes "1 \<le> limit"
  shows "poolInv items f
           ((startWorker (length items) ^^ nat (min limit (int (length items))))
              \<lparr> nextIndex = 0, results = replicate (length items) None, workers = [],
                rejection = None, shared = s0 \<rparr>)"
proof -
  let ?k = "nat (min limit (int (length items)))"
  have k: "?k \<le> length items" by simp
  show ?thesis
  proof (cases "length items = 0")
    case True
    then show ?thesis unfolding start_state [OF k] poolInv_def by simp
  next
    case False
    then have "0 < int (length items)" by simp
    then have kpos: "0 < min limit (int (length items))" using assms by (simp add: min_def)
    show ?thesis
      unfolding start_state [OF k] poolInv_def using kpos by (auto simp: list_all_iff)
  qed
qed

lemma settle_inv:
  assumes inv: "poolInv items f p"
    and w: "w \<in> set (awaitingWorkers p)"
    and ok: "\<And>i s. i < length items \<Longrightarrow> fst (mapper (items ! i) i s) = Inr (f (items ! i) i)"
  shows "poolInv items f (settle mapper items w p)"
proof -
  from w have wl: "w < length (workers p)" and wa: "isAwaiting (workers p ! w)"
    by (simp_all add: awaiting_mem)
  then obtain i where i: "workers p ! w = Awaiting i" by (cases "workers p ! w") auto
  have il: "i < nextIndex p" using inv wl i by (auto simp: poolInv_def)
  have nl: "nextIndex p \<le> length items" and rl: "length (results p) = length items"
    and rej: "rejection p = None"
    using inv by (simp_all add: poolInv_def)
  have iN: "i < length items" using il nl by simp
  obtain s where m: "mapper (items ! i) i (shared p) = (Inr (f (items ! i) i), s)"
    using ok [OF iN, of "shared p"] by (cases "mapper (items ! i) i (shared p)") auto
  have done_slot: "\<And>j. j < nextIndex p \<Longrightarrow> j \<noteq> i \<Longrightarrow>
      (\<exists>w' < length (workers p). w' \<noteq> w \<and> workers p ! w' = Awaiting j)
      \<or> results p ! j = Some (f (items ! j) j)"
    using inv i unfolding poolInv_def by (metis worker.inject)
  show ?thesis
  proof (cases "nextIndex p < length items")
    case True
    then have all: "workers p \<noteq> [] \<and> list_all isAwaiting (workers p)"
      using inv by (auto simp: poolInv_def)
    have st: "settle mapper items w p =
        p\<lparr> results := (results p)[i := Some (f (items ! i) i)], shared := s,
           workers := (workers p)[w := Awaiting (nextIndex p)], nextIndex := nextIndex p + 1 \<rparr>"
      using i m True by (simp add: settle_def runWorkerLoop_def)
    have a: "list_all isAwaiting ((workers p)[w := Awaiting (nextIndex p)])"
      using all by (auto simp: list_all_iff dest: set_update_subset_insert [THEN subsetD])
    have b: "\<forall>w' j. w' < length (workers p) \<and> (workers p)[w := Awaiting (nextIndex p)] ! w' = Awaiting j
                \<longrightarrow> j < nextIndex p + 1"
    proof (intro allI impI)
      fix w' j
      assume h: "w' < length (workers p) \<and> (workers p)[w := Awaiting (nextIndex p)] ! w' = Awaiting j"
      show "j < nextIndex p + 1"
      proof (cases "w' = w")
        case True
        then show ?thesis using h by auto
      next
        case False
        then have "workers p ! w' = Awaiting j" using h by simp
        then have "j < nextIndex p" using inv h unfolding poolInv_def by blast
        then show ?thesis by simp
      qed
    qed
    have c: "\<forall>j < nextIndex p + 1.
        (\<exists>w' < length (workers p). (workers p)[w := Awaiting (nextIndex p)] ! w' = Awaiting j)
        \<or> (results p)[i := Some (f (items ! i) i)] ! j = Some (f (items ! j) j)"
    proof (intro allI impI)
      fix j assume j: "j < nextIndex p + 1"
      show "(\<exists>w' < length (workers p). (workers p)[w := Awaiting (nextIndex p)] ! w' = Awaiting j)
        \<or> (results p)[i := Some (f (items ! i) i)] ! j = Some (f (items ! j) j)"
      proof (cases "j = nextIndex p")
        case True
        then show ?thesis using wl by auto
      next
        case False
        then have jl: "j < nextIndex p" using j by simp
        show ?thesis
        proof (cases "j = i")
          case True
          then show ?thesis using iN rl by simp
        next
          case ne: False
          from done_slot [OF jl ne] show ?thesis
            using ne by (auto simp: nth_list_update)
        qed
      qed
    qed
    show ?thesis
      unfolding st poolInv_def using True rl rej all a b c by simp
  next
    case False
    then have full: "nextIndex p = length items" using nl by simp
    have st: "settle mapper items w p =
        p\<lparr> results := (results p)[i := Some (f (items ! i) i)], shared := s,
           workers := (workers p)[w := Finished] \<rparr>"
      using i m False by (simp add: settle_def runWorkerLoop_def)
    have b: "\<forall>w' j. w' < length (workers p) \<and> (workers p)[w := Finished] ! w' = Awaiting j
                \<longrightarrow> j < nextIndex p"
    proof (intro allI impI)
      fix w' j
      assume h: "w' < length (workers p) \<and> (workers p)[w := Finished] ! w' = Awaiting j"
      show "j < nextIndex p"
      proof (cases "w' = w")
        case True
        then show ?thesis using h by auto
      next
        case False
        then have "workers p ! w' = Awaiting j" using h by simp
        then show ?thesis using inv h unfolding poolInv_def by blast
      qed
    qed
    have c: "\<forall>j < nextIndex p.
        (\<exists>w' < length (workers p). (workers p)[w := Finished] ! w' = Awaiting j)
        \<or> (results p)[i := Some (f (items ! i) i)] ! j = Some (f (items ! j) j)"
    proof (intro allI impI)
      fix j assume jl: "j < nextIndex p"
      show "(\<exists>w' < length (workers p). (workers p)[w := Finished] ! w' = Awaiting j)
        \<or> (results p)[i := Some (f (items ! i) i)] ! j = Some (f (items ! j) j)"
      proof (cases "j = i")
        case True
        then show ?thesis using iN rl by simp
      next
        case ne: False
        from done_slot [OF jl ne] show ?thesis
          using ne by (auto simp: nth_list_update)
      qed
    qed
    show ?thesis
      unfolding st poolInv_def using full rl rej b c by simp
  qed
qed

lemma runWorkers_inv:
  "poolInv items f p \<Longrightarrow>
   \<forall>i s. i < length items \<longrightarrow> fst (mapper (items ! i) i s) = Inr (f (items ! i) i) \<Longrightarrow>
   poolInv items f (runWorkers mapper items sched t p)
     \<and> awaitingWorkers (runWorkers mapper items sched t p) = []"
proof (induction mapper items sched t p rule: runWorkers.induct)
  case (1 mapper items sched t p)
  have rej: "rejection p = None" using "1.prems"(1) by (simp add: poolInv_def)
  show ?case
  proof (cases "awaitingWorkers p = []")
    case True
    then show ?thesis using "1.prems" by (simp add: runWorkers.simps [of mapper items sched t p])
  next
    case False
    let ?w = "awaitingWorkers p ! (sched t mod length (awaitingWorkers p))"
    have "?w \<in> set (awaitingWorkers p)" using False by simp
    then have "poolInv items f (settle mapper items ?w p)"
      using settle_inv [OF "1.prems"(1)] "1.prems"(2) by blast
    then show ?thesis
      using "1.IH" False rej "1.prems"(2) by (simp add: runWorkers.simps [of mapper items sched t p])
  qed
qed

lemma finished_results:
  assumes inv: "poolInv items f p" and fin: "awaitingWorkers p = []"
  shows "results p = map (\<lambda>i. Some (f (items ! i) i)) [0..<length items]"
proof -
  have none: "\<not> (\<exists>w < length (workers p). isAwaiting (workers p ! w))"
    using fin by (auto simp: awaitingWorkers_def filter_empty_conv)
  have full: "nextIndex p = length items"
  proof (rule ccontr)
    assume "nextIndex p \<noteq> length items"
    then have "workers p \<noteq> []" "list_all isAwaiting (workers p)"
      using inv by (auto simp: poolInv_def)
    then have "0 < length (workers p) \<and> isAwaiting (workers p ! 0)"
      by (cases "workers p") auto
    then show False using none by blast
  qed
  have slot: "results p ! i = Some (f (items ! i) i)" if "i < length items" for i
  proof -
    have "(\<exists>w < length (workers p). workers p ! w = Awaiting i) \<or> results p ! i = Some (f (items ! i) i)"
      using inv that full unfolding poolInv_def by simp
    moreover have "\<not> (\<exists>w < length (workers p). workers p ! w = Awaiting i)"
      using none by (metis isAwaiting.simps(1))
    ultimately show ?thesis by blast
  qed
  have "length (results p) = length items" using inv by (simp add: poolInv_def)
  then show ?thesis using slot by (intro nth_equalityI) simp_all
qed

lemma mapWithConcurrencyLimit_results:
  assumes "1 \<le> limit"
    and "\<forall>i s. i < length items \<longrightarrow> fst (mapper (items ! i) i s) = Inr (f (items ! i) i)"
  shows "fst (mapWithConcurrencyLimit items limit mapper sched s0)
           = Inr (map (\<lambda>i. Some (f (items ! i) i)) [0..<length items])"
proof -
  let ?start = "(startWorker (length items) ^^ nat (min limit (int (length items))))
              \<lparr> nextIndex = 0, results = replicate (length items) None, workers = [],
                rejection = None, shared = s0 \<rparr>"
  let ?p = "runWorkers mapper items sched 0 ?start"
  have inv0: "poolInv items f ?start" by (rule start_inv [OF assms(1)])
  have fin: "poolInv items f ?p \<and> awaitingWorkers ?p = []"
    using runWorkers_inv [of items f ?start mapper sched 0] inv0 assms(2) by blast
  then have "results ?p = map (\<lambda>i. Some (f (items ! i) i)) [0..<length items]"
    using finished_results by blast
  moreover have "rejection ?p = None" using fin by (simp add: poolInv_def)
  ultimately show ?thesis by (simp add: mapWithConcurrencyLimit_def Let_def)
qed


lemma filter_awaiting_map: "length (filter isAwaiting (map Awaiting xs)) = length xs"
  by (induction xs) auto

lemma filter_update_count:
  "w < length ws \<Longrightarrow> isAwaiting (ws ! w) \<Longrightarrow> \<not> isAwaiting x
     \<Longrightarrow> Suc (length (filter isAwaiting (ws[w := x]))) = length (filter isAwaiting ws)"
proof (induction ws arbitrary: w)
  case Nil
  then show ?case by simp
next
  case (Cons a ws)
  then show ?case by (cases w) auto
qed

lemma settle_shared:
  assumes inv: "poolInv items f p"
    and w: "w \<in> set (awaitingWorkers p)"
    and ok: "\<forall>i s. i < length items \<longrightarrow> fst (mapper (items ! i) i s) = Inr (f (items ! i) i)"
    and step: "\<forall>k i s. i < length items \<and> Q k s \<longrightarrow> Q (Suc k) (snd (mapper (items ! i) i s))"
    and cnt: "k + length (filter isAwaiting (workers p)) = nextIndex p"
    and q: "Q k (shared p)"
  shows "Suc k + length (filter isAwaiting (workers (settle mapper items w p)))
           = nextIndex (settle mapper items w p)
         \<and> Q (Suc k) (shared (settle mapper items w p))"
proof -
  from w have wl: "w < length (workers p)" and wa: "isAwaiting (workers p ! w)"
    by (simp_all add: awaiting_mem)
  then obtain i where i: "workers p ! w = Awaiting i" by (cases "workers p ! w") auto
  have "i < nextIndex p" using inv wl i by (auto simp: poolInv_def)
  moreover have "nextIndex p \<le> length items" using inv by (simp add: poolInv_def)
  ultimately have iN: "i < length items" by simp
  obtain s where m: "mapper (items ! i) i (shared p) = (Inr (f (items ! i) i), s)"
    using ok iN by (cases "mapper (items ! i) i (shared p)") (metis fst_conv)
  have qs: "Q (Suc k) s" using step iN q m by (metis snd_conv)
  have pos: "0 < length (filter isAwaiting (workers p))"
    using wl wa by (metis filter_empty_conv length_greater_0_conv nth_mem)
  show ?thesis
  proof (cases "nextIndex p < length items")
    case True
    then show ?thesis
      using i m qs cnt wl wa filter_update_same [of w "workers p" "Awaiting (nextIndex p)"]
      by (simp add: settle_def runWorkerLoop_def)
  next
    case False
    then show ?thesis
      using i m qs cnt wl wa filter_update_count [of w "workers p" Finished]
      by (simp add: settle_def runWorkerLoop_def)
  qed
qed


lemma runWorkers_shared:
  "poolInv items f p \<Longrightarrow>
   \<forall>i s. i < length items \<longrightarrow> fst (mapper (items ! i) i s) = Inr (f (items ! i) i) \<Longrightarrow>
   \<forall>k i s. i < length items \<and> Q k s \<longrightarrow> Q (Suc k) (snd (mapper (items ! i) i s)) \<Longrightarrow>
   k + length (filter isAwaiting (workers p)) = nextIndex p \<Longrightarrow> Q k (shared p) \<Longrightarrow>
   \<exists>k'. k' + length (filter isAwaiting (workers (runWorkers mapper items sched t p)))
            = nextIndex (runWorkers mapper items sched t p)
        \<and> Q k' (shared (runWorkers mapper items sched t p))"
proof (induction mapper items sched t p arbitrary: k rule: runWorkers.induct)
  case (1 mapper items sched t p)
  have rej: "rejection p = None" using "1.prems"(1) by (simp add: poolInv_def)
  show ?case
  proof (cases "awaitingWorkers p = []")
    case True
    then show ?thesis
      using "1.prems"(4,5) by (auto simp: runWorkers.simps [of mapper items sched t p])
  next
    case False
    let ?w = "awaitingWorkers p ! (sched t mod length (awaitingWorkers p))"
    have w: "?w \<in> set (awaitingWorkers p)" using False by simp
    have inv': "poolInv items f (settle mapper items ?w p)"
      using settle_inv [OF "1.prems"(1) w] "1.prems"(2) by blast
    have sh: "Suc k + length (filter isAwaiting (workers (settle mapper items ?w p)))
           = nextIndex (settle mapper items ?w p)
         \<and> Q (Suc k) (shared (settle mapper items ?w p))"
      using settle_shared [of items f p ?w mapper Q k] "1.prems" w by blast
    have "\<exists>k'. k' + length (filter isAwaiting (workers (runWorkers mapper items sched (t + 1) (settle mapper items ?w p))))
            = nextIndex (runWorkers mapper items sched (t + 1) (settle mapper items ?w p))
        \<and> Q k' (shared (runWorkers mapper items sched (t + 1) (settle mapper items ?w p)))"
      using "1.IH" [of "Suc k"] False rej inv' "1.prems"(2,3) sh by blast
    then show ?thesis
      using False rej by (simp add: runWorkers.simps [of mapper items sched t p])
  qed
qed

lemma mapWithConcurrencyLimit_shared:
  assumes "1 \<le> limit"
    and ok: "\<forall>i s. i < length items \<longrightarrow> fst (mapper (items ! i) i s) = Inr (f (items ! i) i)"
    and step: "\<forall>k i s. i < length items \<and> Q k s \<longrightarrow> Q (Suc k) (snd (mapper (items ! i) i s))"
    and q0: "Q 0 s0"
  shows "Q (length items) (snd (mapWithConcurrencyLimit items limit mapper sched s0))"
proof -
  let ?k = "nat (min limit (int (length items)))"
  let ?start = "(startWorker (length items) ^^ ?k)
              \<lparr> nextIndex = 0, results = replicate (length items) None, workers = [],
                rejection = None, shared = s0 \<rparr>"
  let ?fin = "runWorkers mapper items sched 0 ?start"
  have kl: "?k \<le> length items" by simp
  have inv0: "poolInv items f ?start" by (rule start_inv [OF assms(1)])
  have cnt0: "0 + length (filter isAwaiting (workers ?start)) = nextIndex ?start"
    unfolding start_state [OF kl] by (simp add: filter_awaiting_map)
  have q0': "Q 0 (shared ?start)" unfolding start_state [OF kl] using q0 by simp
  obtain k' where k': "k' + length (filter isAwaiting (workers ?fin)) = nextIndex ?fin"
      "Q k' (shared ?fin)"
    using runWorkers_shared [of items f ?start mapper Q 0 sched 0] inv0 ok step cnt0 q0' by blast
  have fin: "poolInv items f ?fin \<and> awaitingWorkers ?fin = []"
    using runWorkers_inv [of items f ?start mapper sched 0] inv0 ok by blast
  then have "length (filter isAwaiting (workers ?fin)) = 0"
    using length_awaiting [of ?fin] by simp
  moreover have "nextIndex ?fin = length items"
  proof (rule ccontr)
    assume "nextIndex ?fin \<noteq> length items"
    then have "workers ?fin \<noteq> []" "list_all isAwaiting (workers ?fin)"
      using fin by (auto simp: poolInv_def)
    then have "filter isAwaiting (workers ?fin) \<noteq> []"
      by (cases "workers ?fin") auto
    then show False using \<open>length (filter isAwaiting (workers ?fin)) = 0\<close> by simp
  qed
  ultimately have "k' = length items" using k'(1) by simp
  then show ?thesis using k'(2) by (simp add: mapWithConcurrencyLimit_def Let_def)
qed


text \<open>
  C1: for every list of items, every limit \<open>K \<ge> 1\<close>, every order in which the transforms
  complete (every scheduler) and every transform that resolves on each item, with
  \<open>f item index\<close> its result, \<open>mapWithConcurrencyLimit\<close> returns the list whose slot \<open>i\<close>
  holds the transform's result for item \<open>i\<close>; it has the length of the input.
\<close>

theorem mapWithConcurrencyLimit_preserves_order:
  assumes "1 \<le> K"
    and "\<forall>i s. i < length items \<longrightarrow> fst (mapper (items ! i) i s) = Inr (f (items ! i) i)"
  shows "fst (mapWithConcurrencyLimit items K mapper sched s0)
           = Inr (map (\<lambda>i. Some (f (items ! i) i)) [0..<length items])"
  using mapWithConcurrencyLimit_results [of K items mapper f sched s0] assms by simp

theorem mapWithConcurrencyLimit_preserves_order_witness:
  "(1::int) \<le> 2
   \<and> fst (mapWithConcurrencyLimit [10::nat, 20, 30, 40, 50] 2
            (\<lambda>x i s. (Inr (x + i) :: unit + nat, s @ [i])) (\<lambda>t. 2 * t + 1) ([]::nat list))
       = Inr [Some 10, Some 21, Some 32, Some 43, Some 54]
   \<and> snd (mapWithConcurrencyLimit [10::nat, 20, 30, 40, 50] 2
            (\<lambda>x i s. (Inr (x + i) :: unit + nat, s @ [i])) (\<lambda>t. 2 * t + 1) ([]::nat list))
       = [1, 2, 3, 4, 0]"
proof -
  have order: "snd (mapWithConcurrencyLimit [10::nat, 20, 30, 40, 50] 2
            (\<lambda>x i s. (Inr (x + i) :: unit + nat, s @ [i])) (\<lambda>t. 2 * t + 1) ([]::nat list))
       = [1, 2, 3, 4, 0]"
    by code_simp
  have expected: "map (\<lambda>i. Some ([10::nat, 20, 30, 40, 50] ! i + i)) [0..<length [10::nat, 20, 30, 40, 50]]
       = [Some 10, Some 21, Some 32, Some 43, Some 54]"
    by code_simp
  have hyp: "\<forall>i s. i < length [10::nat, 20, 30, 40, 50] \<longrightarrow>
      fst ((\<lambda>x i s. (Inr (x + i) :: unit + nat, s @ [i])) ([10::nat, 20, 30, 40, 50] ! i) i (s :: nat list))
        = Inr ((\<lambda>x i. x + i) ([10::nat, 20, 30, 40, 50] ! i) i)"
    by simp
  have "fst (mapWithConcurrencyLimit [10::nat, 20, 30, 40, 50] 2
            (\<lambda>x i s. (Inr (x + i) :: unit + nat, s @ [i])) (\<lambda>t. 2 * t + 1) ([]::nat list))
       = Inr (map (\<lambda>i. Some ([10::nat, 20, 30, 40, 50] ! i + i)) [0..<length [10::nat, 20, 30, 40, 50]])"
    by (rule mapWithConcurrencyLimit_preserves_order
          [of 2 "[10::nat, 20, 30, 40, 50]" "\<lambda>x i s. (Inr (x + i) :: unit + nat, s @ [i])"
              "\<lambda>x i. x + i" "\<lambda>t. 2 * t + 1" "[]::nat list", OF _ hyp]) simp
  then show ?thesis using order expected by simp
qed


lemma capturedContexts_map: "capturedContexts (map (\<lambda>x. Some (g x)) xs) = List.map_filter g xs"
proof (induction xs)
  case Nil
  then show ?case by (simp add: List.map_filter_simps)
next
  case (Cons x xs)
  then show ?case by (cases "g x") (simp_all add: List.map_filter_simps)
qed

lemma captureMapper_fst: "fst (captureMapper inspector n x i s) = Inr (inspector x)"
  by (simp add: captureMapper_def split: option.splits)

lemma capture_results:
  "fst (mapWithConcurrencyLimit items 2 (captureMapper inspector n) sched c0)
     = Inr (map (\<lambda>x. Some (inspector x)) items)"
proof -
  have "fst (mapWithConcurrencyLimit items 2 (captureMapper inspector n) sched c0)
     = Inr (map (\<lambda>i. Some (inspector (items ! i))) [0..<length items])"
    by (rule mapWithConcurrencyLimit_results) (simp_all add: captureMapper_fst)
  moreover have "map (\<lambda>i. Some (inspector (items ! i))) [0..<length items]
      = map (\<lambda>x. Some (inspector x)) items"
    by (intro nth_equalityI) simp_all
  ultimately show ?thesis by simp
qed

lemma capture_all_failed:
  assumes "\<forall>el \<in> set items. inspector el = None"
  shows "snd (mapWithConcurrencyLimit items 2 (captureMapper inspector n) sched
            \<lparr> completed = 0, failed = 0, effects = [OnProgress (BuildingContext 0 n)] \<rparr>)
         = \<lparr> completed = length items, failed = length items, effects = captureLog n (length items) \<rparr>"
proof -
  let ?Q = "\<lambda>k c. c = \<lparr> completed = k, failed = k, effects = captureLog n k \<rparr>"
  have "?Q (length items) (snd (mapWithConcurrencyLimit items 2 (captureMapper inspector n) sched
            \<lparr> completed = 0, failed = 0, effects = [OnProgress (BuildingContext 0 n)] \<rparr>))"
  proof (rule mapWithConcurrencyLimit_shared [where f = "\<lambda>x i. inspector x"])
    show "(1::int) \<le> 2" by simp
    show "\<forall>i s. i < length items \<longrightarrow> fst (captureMapper inspector n (items ! i) i s) = Inr (inspector (items ! i))"
      by (simp add: captureMapper_fst)
    show "\<forall>k i s. i < length items \<and> ?Q k s \<longrightarrow> ?Q (Suc k) (snd (captureMapper inspector n (items ! i) i s))"
      using assms by (auto simp: captureMapper_def captureLog_def)
    show "?Q 0 \<lparr> completed = 0, failed = 0, effects = [OnProgress (BuildingContext 0 n)] \<rparr>"
      by (simp add: captureLog_def)
  qed
  then show ?thesis by simp
qed

text \<open>
  C4: when no element is left after deduplication and the connected filter, the progress
  callback is called once, with the error phase, completed 0 and total 0, and the
  controller (its current session included) is unchanged. When elements are left and the
  inspector fails on all of them, the callback receives the building-context reports and
  then an error phase with its message, nothing is sent, and the controller is unchanged:
  no session is created or stored.
\<close>

theorem finalizeSelection_whole_batch_failure:
  "(filter isConn (dedupeElementsPreserveOrder els) = [] \<longrightarrow>
      finalizeSelection w inspector sendContext isConn sched els ctl
        = (Resolved, ctl, [OnProgress (ErrorPhase 0 0 (str ''No valid elements to capture.''))]))
   \<and> (filter isConn (dedupeElementsPreserveOrder els) \<noteq> []
       \<and> (\<forall>el \<in> set (filter isConn (dedupeElementsPreserveOrder els)). inspector el = None) \<longrightarrow>
      finalizeSelection w inspector sendContext isConn sched els ctl
        = (Resolved, ctl,
           captureLog (length (filter isConn (dedupeElementsPreserveOrder els)))
               (length (filter isConn (dedupeElementsPreserveOrder els)))
             @ [OnProgress (ErrorPhase (length (filter isConn (dedupeElementsPreserveOrder els)))
                  (length (filter isConn (dedupeElementsPreserveOrder els)))
                  (str ''Failed to capture context for all selected elements.''))]))"
proof (intro conjI impI)
  assume "filter isConn (dedupeElementsPreserveOrder els) = []"
  then show "finalizeSelection w inspector sendContext isConn sched els ctl
        = (Resolved, ctl, [OnProgress (ErrorPhase 0 0 (str ''No valid elements to capture.''))])"
    by (simp add: finalizeSelection_def)
next
  let ?c = "filter isConn (dedupeElementsPreserveOrder els)"
  let ?init = "\<lparr> completed = 0, failed = 0, effects = [OnProgress (BuildingContext 0 (length ?c))] \<rparr>"
  let ?m = "mapWithConcurrencyLimit ?c 2 (captureMapper inspector (length ?c)) sched ?init"
  assume h: "?c \<noteq> [] \<and> (\<forall>el \<in> set ?c. inspector el = None)"
  have "fst ?m = Inr (map (\<lambda>x. Some (inspector x)) ?c)" by (rule capture_results)
  moreover have "map (\<lambda>x. Some (inspector x)) ?c = map (\<lambda>x. Some None) ?c" using h by simp
  moreover have "snd ?m = \<lparr> completed = length ?c, failed = length ?c,
      effects = captureLog (length ?c) (length ?c) \<rparr>"
    using h by (intro capture_all_failed) simp
  ultimately have m: "?m = (Inr (map (\<lambda>x. Some None) ?c),
      \<lparr> completed = length ?c, failed = length ?c, effects = captureLog (length ?c) (length ?c) \<rparr>)"
    by (metis prod.collapse)
  have none: "capturedContexts (map (\<lambda>x. Some None) ?c) = ([] :: 'b list)"
    using capturedContexts_map [of "\<lambda>x. None" ?c] by (simp add: List.map_filter_def)
  show "finalizeSelection w inspector sendContext isConn sched els ctl
        = (Resolved, ctl,
           captureLog (length ?c) (length ?c)
             @ [OnProgress (ErrorPhase (length ?c) (length ?c)
                  (str ''Failed to capture context for all selected elements.''))])"
    using h by (simp add: finalizeSelection_def Let_def m none)
qed

theorem finalizeSelection_whole_batch_failure_witness:
  "filter (\<lambda>e. False) (dedupeElementsPreserveOrder [5::nat, 7]) = []
   \<and> finalizeSelection exampleWorld (\<lambda>e. None) (\<lambda>s. None) (\<lambda>e. False) (\<lambda>t. t) [5::nat, 7]
        (freshController :: unit controller)
      = (Resolved, freshController, [OnProgress (ErrorPhase 0 0 (str ''No valid elements to capture.''))])
   \<and> filter (\<lambda>e. True) (dedupeElementsPreserveOrder [5::nat, 7, 5]) = [5, 7]
   \<and> finalizeSelection exampleWorld (\<lambda>e. None) (\<lambda>s. None) (\<lambda>e. True) (\<lambda>t. t + 1) [5::nat, 7, 5]
        (freshController :: unit controller)
      = (Resolved, freshController,
         [OnProgress (BuildingContext 0 2), ConsoleWarn, OnProgress (BuildingContext 1 2),
          ConsoleWarn, OnProgress (BuildingContext 2 2),
          OnProgress (ErrorPhase 2 2 (str ''Failed to capture context for all selected elements.''))])"
proof -
  have a: "filter (\<lambda>e. False) (dedupeElementsPreserveOrder [5::nat, 7]) = []" by simp
  have b: "dedupeElementsPreserveOrder [5::nat, 7, 5] = [5, 7]" by code_simp
  have c: "captureLog 2 2 = [OnProgress (BuildingContext 0 2), ConsoleWarn,
      OnProgress (BuildingContext 1 2), ConsoleWarn, OnProgress (BuildingContext 2 2)]"
    by code_simp
  have c2: "captureLog (Suc (Suc 0)) (Suc (Suc 0)) = [OnProgress (BuildingContext 0 2), ConsoleWarn,
      OnProgress (BuildingContext 1 2), ConsoleWarn, OnProgress (BuildingContext 2 2)]"
    using c by (simp add: numeral_2_eq_2)
  show ?thesis
    using finalizeSelection_whole_batch_failure
        [of "\<lambda>e. False" "[5::nat, 7]" exampleWorld "\<lambda>e. None" "\<lambda>s. None" "\<lambda>t. t" "freshController :: unit controller"]
      finalizeSelection_whole_batch_failure
        [of "\<lambda>e. True" "[5::nat, 7, 5]" exampleWorld "\<lambda>e. None" "\<lambda>s. None" "\<lambda>t. t + 1" "freshController :: unit controller"]
    by (simp add: b c2)
qed

lemma dedupe_distinct: "distinct (dedupeElementsPreserveOrder els)"
  by (simp add: dedupeElementsPreserveOrder_def dedupeLoop_distinct)

lemma dedupe_set: "set (dedupeElementsPreserveOrder els) = set els"
  by (simp add: dedupeElementsPreserveOrder_def dedupeLoop_set)

lemma finalizeSelection_session:
  "finalizeSelection w inspector sendContext isConn sched els ctl = (r, ctl', effs) \<Longrightarrow>
   r = Resolved
   \<and> (if List.map_filter inspector (filter isConn (dedupeElementsPreserveOrder els)) = [] then ctl' = ctl
       else currentInstruction ctl' = currentInstruction ctl
          \<and> map_option elements (currentSession ctl')
              = Some (List.map_filter inspector (filter isConn (dedupeElementsPreserveOrder els))))"
proof -
  let ?c = "filter isConn (dedupeElementsPreserveOrder els)"
  let ?init = "\<lparr> completed = 0, failed = 0, effects = [OnProgress (BuildingContext 0 (length ?c))] \<rparr>"
  let ?m = "mapWithConcurrencyLimit ?c 2 (captureMapper inspector (length ?c)) sched ?init"
  assume h: "finalizeSelection w inspector sendContext isConn sched els ctl = (r, ctl', effs)"
  show ?thesis
  proof (cases "?c = []")
    case True
    then show ?thesis using h by (simp add: finalizeSelection_def List.map_filter_simps)
  next
    case False
    obtain env where m: "?m = (Inr (map (\<lambda>x. Some (inspector x)) ?c), env)"
      using capture_results [of ?c inspector "length ?c" sched ?init] by (metis prod.collapse)
    have cc: "capturedContexts (map (\<lambda>x. Some (inspector x)) ?c) = List.map_filter inspector ?c"
      by (rule capturedContexts_map)
    show ?thesis
      using h False
      by (auto simp: finalizeSelection_def Let_def m cc split: if_splits option.splits)
  qed
qed

text \<open>
  C10: the elements that \<open>finalizeSelection\<close> captures are the connected ones among the
  first occurrences of the elements passed, in the order of those first occurrences, and
  they are pairwise distinct. The finalize resolves. When the inspector succeeds on at least
  one captured element, the session stored holds one context for each captured element on
  which the inspector succeeded, in that order; otherwise the controller is unchanged. An
  element passed twice therefore never gives two contexts.
\<close>

theorem finalizeSelection_captures_first_occurrences:
  "distinct (filter isConn (dedupeElementsPreserveOrder els))
   \<and> filter isConn (dedupeElementsPreserveOrder els)
       = map (\<lambda>i. els ! i) (filter (\<lambda>i. els ! i \<notin> set (take i els) \<and> isConn (els ! i)) [0..<length els])
   \<and> fst (finalizeSelection w inspector sendContext isConn sched els ctl) = Resolved
   \<and> (if List.map_filter inspector (filter isConn (dedupeElementsPreserveOrder els)) = []
       then fst (snd (finalizeSelection w inspector sendContext isConn sched els ctl)) = ctl
       else map_option elements
              (currentSession (fst (snd (finalizeSelection w inspector sendContext isConn sched els ctl))))
            = Some (List.map_filter inspector (filter isConn (dedupeElementsPreserveOrder els))))"
proof -
  obtain r ctl' effs where f: "finalizeSelection w inspector sendContext isConn sched els ctl = (r, ctl', effs)"
    by (metis prod.collapse)
  have a: "distinct (filter isConn (dedupeElementsPreserveOrder els))"
    using dedupe_distinct [of els] by simp
  have b: "filter isConn (dedupeElementsPreserveOrder els)
       = map (\<lambda>i. els ! i) (filter (\<lambda>i. els ! i \<notin> set (take i els) \<and> isConn (els ! i)) [0..<length els])"
    unfolding dedupe_first_occ by (simp add: filter_map comp_def conj_commute)
  have c: "fst (finalizeSelection w inspector sendContext isConn sched els ctl) = Resolved"
    using finalizeSelection_session [OF f] f by simp
  have d: "if List.map_filter inspector (filter isConn (dedupeElementsPreserveOrder els)) = []
       then fst (snd (finalizeSelection w inspector sendContext isConn sched els ctl)) = ctl
       else map_option elements
              (currentSession (fst (snd (finalizeSelection w inspector sendContext isConn sched els ctl))))
            = Some (List.map_filter inspector (filter isConn (dedupeElementsPreserveOrder els)))"
    using finalizeSelection_session [OF f] unfolding f by (simp split: if_splits)
  from a b c d show ?thesis by (intro conjI)
qed

lemma finalizeCleanup_idle:
  "\<not> selecting (finalizeCleanup ov) \<and> \<not> sending (finalizeCleanup ov)
   \<and> \<not> helpVisible (finalizeCleanup ov) \<and> selectionBoxes (finalizeCleanup ov) = []
   \<and> \<not> hudVisible (finalizeCleanup ov) \<and> \<not> hudHelpVisible (finalizeCleanup ov)"
  by (simp add: finalizeCleanup_def clearSelectionBoxes_def)

lemma finalizeStart_sending:
  "finalizeStart d ov = (ov1, Some els) \<Longrightarrow>
     sending ov1 \<and> \<not> listenersAttached ov1 \<and> \<not> highlightShown ov1 \<and> els \<noteq> []
     \<and> els = filter (connected d) (dedupeElementsPreserveOrder
                 (if selectedElements ov = [] then (case hoveredElement ov of Some h \<Rightarrow> [h] | None \<Rightarrow> [])
                  else selectedElements ov))"
  by (auto simp: finalizeStart_def Let_def detachSelectionListeners_def updateHudState_def
      dedupeElementsPreserveOrder_def split: if_splits option.splits)

text \<open>
  C5: whenever the overlay's finalize enters the sending state, then for every sequence of
  events handled while the controller's call is in flight, and whether that call resolves
  or rejects, the state the finalize leaves has \<open>selecting\<close> and \<open>sending\<close> false, the help
  flag false, no selection boxes, and the HUD and the help hidden. A rejection is passed on
  after the cleanup.
\<close>

theorem overlay_finalize_returns_to_idle:
  assumes "finalizeStart d ov = (ov1, Some els)"
  shows "sending ov1
         \<and> fst (overlayFinalizeSelection d during outcome ov) = outcome
         \<and> \<not> selecting (snd (overlayFinalizeSelection d during outcome ov))
         \<and> \<not> sending (snd (overlayFinalizeSelection d during outcome ov))
         \<and> \<not> helpVisible (snd (overlayFinalizeSelection d during outcome ov))
         \<and> selectionBoxes (snd (overlayFinalizeSelection d during outcome ov)) = []
         \<and> \<not> hudVisible (snd (overlayFinalizeSelection d during outcome ov))
         \<and> \<not> hudHelpVisible (snd (overlayFinalizeSelection d during outcome ov))"
proof -
  have "overlayFinalizeSelection d during outcome ov
          = (outcome, finalizeCleanup (foldl (\<lambda>st e. handleEvent d e st) ov1 during))"
    using assms by (simp add: overlayFinalizeSelection_def)
  then show ?thesis
    using finalizeStart_sending [OF assms] finalizeCleanup_idle by simp
qed

theorem overlay_finalize_returns_to_idle_witness:
  "snd (finalizeStart exampleDom selectingOverlay) = Some [4, 6]
   \<and> sending (fst (finalizeStart exampleDom selectingOverlay))
   \<and> fst (overlayFinalizeSelection exampleDom exampleEvents Rejected selectingOverlay) = Rejected
   \<and> \<not> selecting (snd (overlayFinalizeSelection exampleDom exampleEvents Rejected selectingOverlay))
   \<and> \<not> sending (snd (overlayFinalizeSelection exampleDom exampleEvents Rejected selectingOverlay))
   \<and> \<not> helpVisible (snd (overlayFinalizeSelection exampleDom exampleEvents Rejected selectingOverlay))
   \<and> selectionBoxes (snd (overlayFinalizeSelection exampleDom exampleEvents Rejected selectingOverlay)) = []
   \<and> \<not> hudVisible (snd (overlayFinalizeSelection exampleDom exampleEvents Rejected selectingOverlay))
   \<and> \<not> hudHelpVisible (snd (overlayFinalizeSelection exampleDom exampleEvents Rejected selectingOverlay))"
proof -
  have els: "snd (finalizeStart exampleDom selectingOverlay) = Some [4, 6]"
    by code_simp
  then have start: "finalizeStart exampleDom selectingOverlay
      = (fst (finalizeStart exampleDom selectingOverlay), Some [4, 6])"
    by (metis prod.collapse)
  show ?thesis
    using overlay_finalize_returns_to_idle [OF start, of exampleEvents Rejected] els by simp
qed

subsection \<open>Prompt serializer\<close>

lemma stringify_canonical: "stringifyForPrompt fmt v False = canonicalJSON fmt v"
  by (induction fmt v rule: canonicalJSON.induct) (auto cong: map_cong)

lemma hexDigitValue_hexDigit: "d < 16 \<Longrightarrow> hexDigitValue (hexDigit d) = d"
proof -
  assume d: "d < 16"
  have small: "48 + d < 2 ^ 16" "87 + d < 2 ^ 16" using d by simp_all
  have "unat (of_nat (48 + d) :: 16 word) = (48 + d) mod 2 ^ LENGTH(16)"
    by (rule unat_of_nat)
  then have u1: "unat (of_nat (48 + d) :: 16 word) = 48 + d"
    using small by simp
  have "unat (of_nat (87 + d) :: 16 word) = (87 + d) mod 2 ^ LENGTH(16)"
    by (rule unat_of_nat)
  then have u2: "unat (of_nat (87 + d) :: 16 word) = 87 + d"
    using small by simp
  show ?thesis
  proof (cases "d < 10")
    case True
    have "(of_nat (48 + d) :: 16 word) < 0x3A"
      using True u1 by (simp add: word_less_nat_alt)
    then show ?thesis using True u1 by (simp add: hexDigitValue_def hexDigit_def)
  next
    case False
    have "\<not> (of_nat (87 + d) :: 16 word) < 0x3A"
      using False u2 by (simp add: word_less_nat_alt)
    then show ?thesis using False u2 by (simp add: hexDigitValue_def hexDigit_def)
  qed
qed

lemma hexValue_append: "hexValue (s @ [c]) = 16 * hexValue s + hexDigitValue c"
  by (simp add: hexValue_def)

lemma hexValue_toString16: "hexValue (toString16 n) = n"
proof (induction n rule: toString16.induct)
  case (1 n)
  show ?case
  proof (cases "n < 16")
    case True
    then show ?thesis
      by (simp add: toString16.simps [of n] hexValue_def hexDigitValue_hexDigit)
  next
    case False
    then have "hexValue (toString16 n) = 16 * hexValue (toString16 (n div 16)) + hexDigitValue (hexDigit (n mod 16))"
      by (simp add: toString16.simps [of n] hexValue_append)
    then show ?thesis using 1 False by (simp add: hexDigitValue_hexDigit)
  qed
qed

lemma rollingHash_bound: "rollingHash s < 2 ^ 32"
proof (cases s rule: rev_cases)
  case Nil
  then show ?thesis by (simp add: rollingHash_def)
next
  case (snoc ys y)
  then show ?thesis by (simp add: rollingHash_def)
qed

lemma maybeAddLine_appends: "appends (maybeAddLine fmt key v dropNull allowEmpty)"
  by (simp add: appends_def maybeAddLine_def Let_def)

lemma foldl_appends:
  "list_all appends body \<Longrightarrow> foldl (\<lambda>ls add. add ls) (a @ b) body = a @ foldl (\<lambda>ls add. add ls) b body"
proof (induction body arbitrary: b)
  case Nil
  then show ?case by simp
next
  case (Cons f body)
  then have "f (a @ b) = a @ f b" by (simp add: appends_def)
  then show ?case using Cons by simp
qed

lemma sectionLines_appends: "list_all appends body \<Longrightarrow> appends (sectionLines name body)"
proof -
  assume b: "list_all appends body"
  have "sectionLines name body (x @ y) = x @ sectionLines name body y" for x y
  proof -
    have "foldl (\<lambda>ls add. add ls) (x @ (y @ [str ''[section:'' @ name @ str '']''])) body
        = x @ foldl (\<lambda>ls add. add ls) (y @ [str ''[section:'' @ name @ str '']'']) body"
      by (rule foldl_appends [OF b])
    then show ?thesis by (simp add: sectionLines_def)
  qed
  then show ?thesis by (simp add: appends_def)
qed


lemma sectionLines_shift:
  "list_all appends body \<Longrightarrow> sectionLines name body (a @ b) = a @ sectionLines name body b"
  using sectionLines_appends [of body name] by (simp add: appends_def)

lemma metaSection_appends: "appends (metaSection fmt c sid cs)"
  unfolding metaSection_def by (rule sectionLines_appends) (simp add: maybeAddLine_appends)

lemma selectionSection_appends: "appends (selectionSection fmt s)"
  unfolding selectionSection_def by (rule sectionLines_appends) (simp add: maybeAddLine_appends)

lemma domSection_appends: "appends (domSection fmt n)"
  unfolding domSection_def by (rule sectionLines_appends) (simp add: maybeAddLine_appends)

lemma reactSection_appends: "appends (reactSection fmt c)"
  unfolding reactSection_def
  by (rule sectionLines_appends) (simp add: maybeAddLine_appends split: option.splits)

lemma stylingSection_appends: "appends (stylingSection fmt st)"
  unfolding stylingSection_def by (rule sectionLines_appends) (simp add: maybeAddLine_appends)

lemma behaviorSection_appends: "appends (behaviorSection fmt b)"
  unfolding behaviorSection_def by (rule sectionLines_appends) (simp add: maybeAddLine_appends)

lemma appSection_appends: "appends (appSection fmt a)"
  unfolding appSection_def by (rule sectionLines_appends) (simp add: maybeAddLine_appends)

lemma testsSection_appends: "appends (testsSection fmt v)"
proof (cases v)
  case None
  then show ?thesis by (simp add: appends_def testsSection_def)
next
  case (Some t)
  have "appends (sectionLines (str ''tests'') [maybeAddLine fmt (str ''hints'') (JArr (testHints t)) True True])"
    by (rule sectionLines_appends) (simp add: maybeAddLine_appends)
  then show ?thesis using Some by (simp add: appends_def testsSection_def)
qed

lemma selectionBody_shift:
  "selectionBody fmt c sid cs (a @ b) = a @ selectionBody fmt c sid cs b"
proof -
  note sh = metaSection_appends [unfolded appends_def, rule_format]
    selectionSection_appends [unfolded appends_def, rule_format]
    domSection_appends [unfolded appends_def, rule_format]
    reactSection_appends [unfolded appends_def, rule_format]
    stylingSection_appends [unfolded appends_def, rule_format]
    behaviorSection_appends [unfolded appends_def, rule_format]
    appSection_appends [unfolded appends_def, rule_format]
    testsSection_appends [unfolded appends_def, rule_format]
  show ?thesis by (simp only: selectionBody_def sh)
qed

lemma checksum_line:
  "maybeAddLine fmt (str ''checksum'') (JStr cs) False False lines
     = lines @ [str ''checksum='' @ quoteJSONString cs]"
  by (simp add: maybeAddLine_def Let_def interpolate_def quoteJSONString_def str_def)


lemma appends_mem: "appends f \<Longrightarrow> x \<in> set lines \<Longrightarrow> x \<in> set (f lines)"
proof -
  assume f: "appends f" and x: "x \<in> set lines"
  have "f (lines @ []) = lines @ f []" using f unfolding appends_def by blast
  then show ?thesis using x by simp
qed

lemma foldl_mem:
  "list_all appends body \<Longrightarrow> x \<in> set lines \<Longrightarrow> x \<in> set (foldl (\<lambda>ls add. add ls) lines body)"
proof (induction body arbitrary: lines)
  case Nil
  then show ?case by simp
next
  case (Cons f body)
  then have "x \<in> set (f lines)" by (simp add: appends_mem)
  then show ?case using Cons by simp
qed

lemma sectionLines_mem:
  "list_all appends body \<Longrightarrow> x \<in> set lines \<Longrightarrow> x \<in> set (sectionLines name body lines)"
  by (simp add: sectionLines_def foldl_mem)

lemma sectionLines_body_mem:
  "list_all appends rest \<Longrightarrow> x \<in> set (foldl (\<lambda>ls add. add ls) (lines @ [str ''[section:'' @ name @ str '']'']) first)
     \<Longrightarrow> x \<in> set (sectionLines name (first @ rest) lines)"
  by (simp add: sectionLines_def foldl_mem)

lemma checksum_in_body:
  "str ''checksum='' @ quoteJSONString cs \<in> set (selectionBody fmt c sid cs [])"
proof -
  let ?x = "str ''checksum='' @ quoteJSONString cs"
  have "?x \<in> set (foldl (\<lambda>ls add. add ls) ([] @ [str ''[section:'' @ str ''meta'' @ str '']''])
          [maybeAddLine fmt (str ''version'') (JNum (Fin 2)) False False,
           maybeAddLine fmt (str ''sel_id'') (JStr sid) False False,
           maybeAddLine fmt (str ''checksum'') (JStr cs) False False])"
    by (simp add: checksum_line)
  then have "?x \<in> set (sectionLines (str ''meta'')
          ([maybeAddLine fmt (str ''version'') (JNum (Fin 2)) False False,
            maybeAddLine fmt (str ''sel_id'') (JStr sid) False False,
            maybeAddLine fmt (str ''checksum'') (JStr cs) False False]
           @ [maybeAddLine fmt (str ''react_available'') (JBool (react c \<noteq> None)) True False,
        maybeAddLine fmt (str ''react_inspector_status'')
          (JStr (inspectorStatusString (inspectorStatus (debugInfoOf c)))) True False,
        maybeAddLine fmt (str ''react_build'')
          (JStr (buildTypeString (buildType (debugInfoOf c)))) True False,
        maybeAddLine fmt (str ''react_message'') (optString (debugMessage (debugInfoOf c))) True False,
        maybeAddLine fmt (str ''source_hint_present'')
          (JBool (nearestSource (selection c) \<noteq> None)) True False,
        maybeAddLine fmt (str ''tests_present'')
          (JBool (case tests c of None \<Rightarrow> False | Some t \<Rightarrow> length (testHints t) > 0)) True False]) [])"
    by (intro sectionLines_body_mem) (simp_all add: maybeAddLine_appends)
  then have "?x \<in> set (metaSection fmt c sid cs [])"
    by (simp add: metaSection_def)
  then show ?thesis
    unfolding selectionBody_def
    by (intro appends_mem [OF testsSection_appends] appends_mem [OF appSection_appends]
          appends_mem [OF behaviorSection_appends] appends_mem [OF stylingSection_appends]
          appends_mem [OF reactSection_appends] appends_mem [OF domSection_appends]
          appends_mem [OF selectionSection_appends])
qed

lemma context_json: "\<exists>json. canonicalJSON fmt (contextToJS c) = Some json"
  by (simp add: contextToJS_def)

lemma session_json: "\<exists>json. canonicalJSON fmt (sessionToJS session) = Some json"
  by (simp add: sessionToJS_def)

lemma render_element:
  "canonicalJSON fmt (contextToJS c) = Some json \<Longrightarrow>
   renderElementContextPrompt fmt c
     = Some (joinWith newline
         (selectionOpenLine (deriveSelectionId fmt c) (promptChecksum json)
            # selectionBody fmt c (deriveSelectionId fmt c) (promptChecksum json) []
            @ [selectionCloseLine (deriveSelectionId fmt c) (promptChecksum json)]))"
  using selectionBody_shift [of fmt c "deriveSelectionId fmt c" "promptChecksum json"
      "[selectionOpenLine (deriveSelectionId fmt c) (promptChecksum json)]" "[]"]
  by (simp add: renderElementContextPrompt_def Let_def stringify_canonical)

lemma render_element_some: "\<exists>out. renderElementContextPrompt fmt c = Some out"
  using context_json [of fmt c] render_element by blast

lemma renderElements_some:
  "\<exists>ext. renderElements fmt idx cs lines = Some (lines @ ext)"
proof (induction cs arbitrary: idx lines)
  case Nil
  then show ?case by simp
next
  case (Cons c cs)
  obtain out where out: "renderElementContextPrompt fmt c = Some out"
    using render_element_some by blast
  obtain ext where "renderElements fmt (idx + 1) cs
      (lines @ [str ''[element:'' @ toString10 idx @ str '']'', out,
                str ''[end:element:'' @ toString10 idx @ str '']''])
      = Some ((lines @ [str ''[element:'' @ toString10 idx @ str '']'', out,
                str ''[end:element:'' @ toString10 idx @ str '']'']) @ ext)"
    using Cons.IH by blast
  then show ?case using out by simp
qed

lemma render_session:
  "canonicalJSON fmt (sessionToJS session) = Some json \<Longrightarrow>
   \<exists>body. renderSessionPrompt fmt session
     = Some (joinWith newline
         (sessionOpenLine (sessionId session) (promptChecksum json) # body
            @ [sessionCloseLine (sessionId session) (promptChecksum json)]))"
proof -
  assume j: "canonicalJSON fmt (sessionToJS session) = Some json"
  let ?open = "sessionOpenLine (sessionId session) (promptChecksum json)"
  let ?meta = "[maybeAddLine fmt (str ''created_at'') (JStr (createdAt session)) False False,
                       maybeAddLine fmt (str ''url'') (JStr (sessionUrl session)) False False,
                       maybeAddLine fmt (str ''instruction'')
                         (JStr (case userInstruction session of
                                  None \<Rightarrow> str ''(none)'' | Some i \<Rightarrow> i)) False False,
                       maybeAddLine fmt (str ''summary'')
                         (JStr (case summary session of
                                  None \<Rightarrow> str ''Session with '' @ toString10 (length (elements session)) @ str '' elements.''
                                | Some t \<Rightarrow> t)) False False,
                       maybeAddLine fmt (str ''element_count'') (JNum (Fin (of_nat (length (elements session))))) False False]"
  have l1: "sectionLines (str ''meta'') ?meta ([?open] @ []) = [?open] @ sectionLines (str ''meta'') ?meta []"
    by (rule sectionLines_shift) (simp add: maybeAddLine_appends)
  obtain ext where ext: "renderElements fmt 0 (elements session)
      (sectionLines (str ''meta'') ?meta [?open] @ [str ''[section:elements]''])
      = Some ((sectionLines (str ''meta'') ?meta [?open] @ [str ''[section:elements]'']) @ ext)"
    using renderElements_some by blast
  have "renderSessionPrompt fmt session
     = Some (joinWith newline
         (?open # (sectionLines (str ''meta'') ?meta [] @ [str ''[section:elements]''] @ ext @ [str ''[end:elements]''])
            @ [sessionCloseLine (sessionId session) (promptChecksum json)]))"
    using j ext l1 by (simp add: renderSessionPrompt_def Let_def stringify_canonical)
  then show ?thesis by blast
qed


text \<open>
  C8. \<open>promptChecksum\<close> is the left fold \<open>hash * 31 + charCode\<close> modulo \<open>2^32\<close> over the
  characters of its input, written as an unsigned hexadecimal numeral: read back in base 16
  the text is the 32-bit value of the fold. \<open>stringifyForPrompt\<close> without \<open>dropNull\<close> is
  the JSON encoding of the value, a property that is \<open>undefined\<close> omitted and every null
  kept. The checksum that \<open>renderElementContextPrompt\<close> writes in its opening line, its
  closing line and the \<open>checksum\<close> line of the meta section, and the one
  \<open>renderSessionPrompt\<close> writes in its opening and closing lines, is \<open>promptChecksum\<close> of
  that encoding of the whole record.
\<close>

theorem promptChecksum_rolling_hash_of_record_json:
  "promptChecksum s = toString16 (rollingHash s)
   \<and> hexValue (promptChecksum s) = rollingHash s
   \<and> rollingHash s < 2 ^ 32
   \<and> stringifyForPrompt fmt v False = canonicalJSON fmt v
   \<and> (\<exists>json body.
         canonicalJSON fmt (contextToJS c) = Some json
         \<and> renderElementContextPrompt fmt c
             = Some (joinWith newline
                 (selectionOpenLine (deriveSelectionId fmt c) (promptChecksum json) # body
                  @ [selectionCloseLine (deriveSelectionId fmt c) (promptChecksum json)]))
         \<and> str ''checksum='' @ quoteJSONString (promptChecksum json) \<in> set body)
   \<and> (\<exists>json body.
         canonicalJSON fmt (sessionToJS session) = Some json
         \<and> renderSessionPrompt fmt session
             = Some (joinWith newline
                 (sessionOpenLine (sessionId session) (promptChecksum json) # body
                  @ [sessionCloseLine (sessionId session) (promptChecksum json)])))"
proof -
  have fold: "promptChecksum s = toString16 (rollingHash s)"
    by (rule promptChecksum_rollingHash)
  have hex: "hexValue (promptChecksum s) = rollingHash s"
    by (simp add: fold hexValue_toString16)
  obtain cj where cj: "canonicalJSON fmt (contextToJS c) = Some cj"
    using context_json by blast
  have element: "\<exists>json body.
         canonicalJSON fmt (contextToJS c) = Some json
         \<and> renderElementContextPrompt fmt c
             = Some (joinWith newline
                 (selectionOpenLine (deriveSelectionId fmt c) (promptChecksum json) # body
                  @ [selectionCloseLine (deriveSelectionId fmt c) (promptChecksum json)]))
         \<and> str ''checksum='' @ quoteJSONString (promptChecksum json) \<in> set body"
    using cj render_element [OF cj]
      checksum_in_body [of "promptChecksum cj" fmt c "deriveSelectionId fmt c"]
    by blast
  obtain sj where sj: "canonicalJSON fmt (sessionToJS session) = Some sj"
    using session_json by blast
  have whole: "\<exists>json body.
         canonicalJSON fmt (sessionToJS session) = Some json
         \<and> renderSessionPrompt fmt session
             = Some (joinWith newline
                 (sessionOpenLine (sessionId session) (promptChecksum json) # body
                  @ [sessionCloseLine (sessionId session) (promptChecksum json)]))"
    using sj render_session [OF sj] by blast
  show ?thesis
    using fold hex rollingHash_bound [of s] stringify_canonical [of fmt v] element whole
    by blast
qed

lemma render_session_some: "\<exists>out. renderSessionPrompt fmt session = Some out"
  using session_json [of fmt session] render_session by blast

text \<open>
  C2. The serializer returns a string on every element context and on every session, and it
  reads nothing but its argument: two applications to the same record give the same string,
  also when the two applications are those of the loop over the elements of a session, where
  the array of lines grows between them.
\<close>

theorem serializer_twice_same_output:
  "(\<exists>out. map (renderElementContextPrompt fmt) [c, c] = [Some out, Some out])
   \<and> (\<exists>out. map (renderSessionPrompt fmt) [session, session] = [Some out, Some out])
   \<and> (\<exists>out. renderElements fmt idx [c, c] lines
         = Some (lines @ [str ''[element:'' @ toString10 idx @ str '']'', out,
                          str ''[end:element:'' @ toString10 idx @ str '']'',
                          str ''[element:'' @ toString10 (idx + 1) @ str '']'', out,
                          str ''[end:element:'' @ toString10 (idx + 1) @ str '']'']))"
proof -
  obtain out where out: "renderElementContextPrompt fmt c = Some out"
    using render_element_some by blast
  obtain whole where whole: "renderSessionPrompt fmt session = Some whole"
    using render_session_some by blast
  have loop: "renderElements fmt idx [c, c] lines
         = Some (lines @ [str ''[element:'' @ toString10 idx @ str '']'', out,
                          str ''[end:element:'' @ toString10 idx @ str '']'',
                          str ''[element:'' @ toString10 (idx + 1) @ str '']'', out,
                          str ''[end:element:'' @ toString10 (idx + 1) @ str '']''])"
    by (simp add: out)
  show ?thesis using out whole loop by simp
qed

end
